theory Spec2Isabelle
  imports Main "HOL-Library.Word" "HOL-Library.Char_ord" "HOL-Library.List_Lexorder" "HOL-Library.DAList"
begin

section \<open>Values shared by the packages\<close>

subsection \<open>Go errors and formatting verbs\<close>

text \<open>
  A Go \<^verbatim>\<open>error\<close> is known to this repository only through its \<^verbatim>\<open>Error()\<close> text.
  \<open>LibraryError\<close> stands for an error handed back by a library call (net/http, io,
  encoding/json, yaml); \<open>Errorf\<close> is an error the repository builds with \<^verbatim>\<open>fmt.Errorf\<close>.
\<close>

datatype error = LibraryError string | Errorf string

fun Error :: "error \<Rightarrow> string" where
  "Error (LibraryError msg) = msg"
| "Error (Errorf msg) = msg"

text \<open>The verb \<^verbatim>\<open>%d\<close>: decimal digits, a leading minus sign for negative numbers.\<close>

definition digit_char :: "nat \<Rightarrow> char" where
  "digit_char n = ''0123456789'' ! n"

function fmt_nat :: "nat \<Rightarrow> string" where
  "fmt_nat n = (if n < 10 then [digit_char n] else fmt_nat (n div 10) @ [digit_char (n mod 10)])"
  by pat_completeness auto
termination
  by (relation "measure id") auto

declare fmt_nat.simps [simp del]

definition fmt_d :: "int \<Rightarrow> string" where
  "fmt_d i = (if i < 0 then ''-'' @ fmt_nat (nat (- i)) else fmt_nat (nat i))"

subsection \<open>Dynamically typed values\<close>

text \<open>
  The values a \<^verbatim>\<open>map[string]any\<close> holds: what \<^verbatim>\<open>encoding/json\<close> decodes into an
  \<^verbatim>\<open>any\<close> (nil, bool, float64, string, slice, map) and the \<^verbatim>\<open>int\<close> the tests store.
  A float64 is kept as its 64 bits; a Go map as a partial function.
\<close>

datatype anyv =
    VNil
  | VBool bool
  | VInt int
  | VFloat64 "64 word"
  | VString string
  | VSlice "anyv list"
  | VMap "string \<Rightarrow> anyv option"

text \<open>The type assertion \<^verbatim>\<open>v.(string)\<close> in its two-result form.\<close>

fun assert_string :: "anyv \<Rightarrow> string option" where
  "assert_string (VString s) = Some s"
| "assert_string _ = None"

text \<open>The type assertion \<^verbatim>\<open>v.(map[string]any)\<close> in its two-result form.\<close>

fun assert_map :: "anyv \<Rightarrow> (string \<Rightarrow> anyv option) option" where
  "assert_map (VMap m) = Some m"
| "assert_map _ = None"

text \<open>The verb \<^verbatim>\<open>%T\<close>: the dynamic type of the value.\<close>

fun fmt_T :: "anyv \<Rightarrow> string" where
  "fmt_T VNil = ''<nil>''"
| "fmt_T (VBool _) = ''bool''"
| "fmt_T (VInt _) = ''int''"
| "fmt_T (VFloat64 _) = ''float64''"
| "fmt_T (VString _) = ''string''"
| "fmt_T (VSlice _) = ''[]interface {}''"
| "fmt_T (VMap _) = ''map[string]interface {}''"

subsection \<open>package models\<close>

definition models_DefaultHostURL :: string where
  "models_DefaultHostURL = ''https://api.cloudvisor.io/kompass-platform''"

record ProductDetails =
  Active :: bool

text \<open>
  \<^verbatim>\<open>map[Product]ProductDetails\<close> is an association list with unique keys, as a Go map
  holds each key once. The order of the list is the order in which \<^verbatim>\<open>range\<close> happens
  to visit the map, which Go leaves open.
\<close>

type_synonym ProductMap = "(string, ProductDetails) alist"

definition range_keys :: "ProductMap \<Rightarrow> string list" where
  "range_keys m = map fst (DAList.impl_of m)"

definition map_index :: "ProductMap \<Rightarrow> string \<Rightarrow> ProductDetails" where
  \<comment> \<open>\<^verbatim>\<open>m[k]\<close>: the zero value for an absent key\<close>
  "map_index m k = (case DAList.lookup m k of Some d \<Rightarrow> d | None \<Rightarrow> \<lparr>Active = False\<rparr>)"

record Payload =
  pl_AccountID :: string
  pl_CloudProvider :: string
  pl_AWSRegion :: "string option"
  pl_RoleARN :: string
  pl_ExternalID :: string
  pl_Products :: ProductMap

record Account =
  OrganizationID :: "64 word"
  OnboardingStatus :: string
  AccountID :: string
  AWSRegion :: "string option"
  CloudProvider :: string
  Products :: ProductMap
  CreatedAt :: int
  UpdatedAt :: int
  AdditionalData :: "string \<Rightarrow> anyv option"

subsection \<open>Framework values: attribute values and diagnostics\<close>

datatype tfString = StringNull | StringUnknown | StringValue string

datatype tfBool = BoolNull | BoolUnknown | BoolValue bool

fun ValueString :: "tfString \<Rightarrow> string" where
  "ValueString (StringValue s) = s"
| "ValueString _ = []"

fun ValueBool :: "tfBool \<Rightarrow> bool" where
  "ValueBool (BoolValue b) = b"
| "ValueBool _ = False"

datatype Severity = SeverityError | SeverityWarning

record Diagnostic =
  Severity :: Severity
  AttrPath :: "string option"
  Summary :: string
  Detail :: string

definition NewErrorDiagnostic :: "string \<Rightarrow> string \<Rightarrow> Diagnostic" where
  "NewErrorDiagnostic summary detail =
     \<lparr>Severity = SeverityError, AttrPath = None, Summary = summary, Detail = detail\<rparr>"

definition NewAttributeErrorDiagnostic :: "string \<Rightarrow> string \<Rightarrow> string \<Rightarrow> Diagnostic" where
  "NewAttributeErrorDiagnostic p summary detail =
     \<lparr>Severity = SeverityError, AttrPath = Some p, Summary = summary, Detail = detail\<rparr>"

type_synonym Diagnostics = "Diagnostic list"

definition HasError :: "Diagnostics \<Rightarrow> bool" where
  "HasError ds = list_ex (\<lambda>d. Severity d = SeverityError) ds"

text \<open>\<^verbatim>\<open>Append\<close> keeps the diagnostics it has and adds each new one it does not hold yet.\<close>

fun Append :: "Diagnostics \<Rightarrow> Diagnostics \<Rightarrow> Diagnostics" where
  "Append ds [] = ds"
| "Append ds (d # new) = Append (if d \<in> set ds then ds else ds @ [d]) new"

definition AddError :: "Diagnostics \<Rightarrow> string \<Rightarrow> string \<Rightarrow> Diagnostics" where
  "AddError ds summary detail = Append ds [NewErrorDiagnostic summary detail]"

definition AddAttributeError :: "Diagnostics \<Rightarrow> string \<Rightarrow> string \<Rightarrow> string \<Rightarrow> Diagnostics" where
  "AddAttributeError ds p summary detail = Append ds [NewAttributeErrorDiagnostic p summary detail]"

section \<open>package provider: model conversion\<close>

record productModel =
  p_Name :: tfString
  p_Active :: tfBool
  p_Values :: tfString

record accountModel =
  m_ID :: tfString
  m_CloudProvider :: tfString
  m_AWSRegion :: tfString
  m_RoleARN :: tfString
  m_ExternalID :: tfString
  m_Products :: "productModel list"

definition parseValues :: "(string \<Rightarrow> anyv option) \<Rightarrow> (string \<Rightarrow> anyv option)" where
  "parseValues input =
     (case input ''values'' of
        None \<Rightarrow> Map.empty
      | Some values \<Rightarrow>
          (case assert_map values of
             None \<Rightarrow> Map.empty
           | Some valuesMap \<Rightarrow>
               (\<lambda>k. case valuesMap k of
                      None \<Rightarrow> None
                    | Some v \<Rightarrow> if v \<noteq> VNil \<and> k \<noteq> ''metadata'' then Some v else None)))"

text \<open>
  \<^verbatim>\<open>yaml.Marshal\<close> is a function of the library gopkg.in/yaml.v3; the conversion takes it as
  its first argument.
\<close>

type_synonym marshaller = "(string \<Rightarrow> anyv option) \<Rightarrow> error + string"

definition ToModel :: "marshaller \<Rightarrow> Account \<Rightarrow> accountModel option \<times> Diagnostics" where
  "ToModel yaml_Marshal account =
     (case AdditionalData account ''roleARN'' of
        None \<Rightarrow>
          (None, [NewErrorDiagnostic ''Missing role ARN for account''
                    ''account.AdditionalData.roleARN is nil or empty''])
      | Some roleARN \<Rightarrow>
     (case assert_string roleARN of
        None \<Rightarrow>
          (None, [NewErrorDiagnostic ''Erroneous role ARN for account''
                    (''Expected string for role ARN but got '' @ fmt_T roleARN)])
      | Some roleARNString \<Rightarrow>
     (case AdditionalData account ''externalID'' of
        None \<Rightarrow>
          (None, [NewErrorDiagnostic ''Missing external ID for account''
                    ''account.AdditionalData.externalID is nil or empty''])
      | Some externalID \<Rightarrow>
     (case assert_string externalID of
        None \<Rightarrow>
          (None, [NewErrorDiagnostic ''Erroneous external ID for account''
                    (''Expected string for external ID but got '' @ fmt_T roleARN)])
      | Some externalIDString \<Rightarrow>
     (case yaml_Marshal (parseValues (AdditionalData account)) of
        Inl err \<Rightarrow>
          (None, [NewErrorDiagnostic ''Erroneous values from provider''
                    (''Got error: '' @ Error err)])
      | Inr valuesBytes \<Rightarrow>
          (let productNames = sort (range_keys (Products account))
           in (Some \<lparr>m_ID = StringValue (AccountID account),
                     m_CloudProvider = StringValue (CloudProvider account),
                     m_AWSRegion = StringNull,
                     m_RoleARN = StringValue roleARNString,
                     m_ExternalID = StringValue externalIDString,
                     m_Products =
                       map (\<lambda>name. \<lparr>p_Name = StringValue name,
                                      p_Active = BoolValue (Active (map_index (Products account) name)),
                                      p_Values = StringValue valuesBytes\<rparr>)
                           productNames\<rparr>,
               [])))))))"


section \<open>package client\<close>

definition client_DefaultHostURL :: string where
  "client_DefaultHostURL = ''http://localhost:9000''"

definition Second :: int where
  \<comment> \<open>\<^verbatim>\<open>time.Second\<close>, in nanoseconds\<close>
  "Second = 1000000000"

record HTTPClient =
  Timeout :: int

record Client =
  HostURL :: string
  HTTPClient :: HTTPClient
  Token :: string

record Request =
  Method :: string
  URL :: string
  Header :: "string \<Rightarrow> string option"
  req_Body :: "string option"

text \<open>A response as \<^verbatim>\<open>DoRequest\<close> uses it: the status code and what \<^verbatim>\<open>io.ReadAll\<close> gets from the body.\<close>

record Response =
  StatusCode :: int
  res_Body :: "error + string"

record accountResourceModel =
  arm_ID :: tfString
  arm_Account :: accountModel
  arm_LastUpdated :: tfString

text \<open>
  What the code reaches outside the repository: the network behind \<^verbatim>\<open>HTTPClient.Do\<close>, the
  library functions whose results it only passes on, the environment, the clock, and the
  diagnostics the framework returns when a value is written to the state.
\<close>

record world =
  http_Do :: "HTTPClient \<Rightarrow> Request \<Rightarrow> error + Response"
  http_NewRequest_err :: "string \<Rightarrow> string \<Rightarrow> error option"
  json_Marshal :: "Payload \<Rightarrow> error + string"
  json_Unmarshal_Account :: "string \<Rightarrow> error + Account"
  json_Unmarshal_Accounts :: "string \<Rightarrow> error + Account list"
  yaml_Marshal :: marshaller
  strconv_Quote :: "string \<Rightarrow> string"
  os_Getenv :: "string \<Rightarrow> string"
  time_Now_RFC850 :: string
  State_Set_diags :: "accountResourceModel \<Rightarrow> Diagnostics"
  SetAttribute_id_diags :: "string \<Rightarrow> Diagnostics"
  SetAttribute_account_diags :: "accountModel \<Rightarrow> Diagnostics"
  ds_State_Set_diags :: "accountModel list \<Rightarrow> Diagnostics"

definition NewClient :: "string option \<Rightarrow> string \<Rightarrow> error + Client" where
  "NewClient host token =
     (let c = \<lparr>HostURL = client_DefaultHostURL, HTTPClient = \<lparr>Timeout = 60 * Second\<rparr>, Token = []\<rparr>;
          c = (case host of Some h \<Rightarrow> c\<lparr>HostURL := h\<rparr> | None \<Rightarrow> c);
          c = c\<lparr>Token := token\<rparr>
      in Inr c)"

definition NewRequest :: "world \<Rightarrow> string \<Rightarrow> string \<Rightarrow> string option \<Rightarrow> error + Request" where
  "NewRequest w method url body =
     (case http_NewRequest_err w method url of
        Some err \<Rightarrow> Inl err
      | None \<Rightarrow> Inr \<lparr>Method = method, URL = url, Header = Map.empty, req_Body = body\<rparr>)"

definition DoRequest :: "world \<Rightarrow> Client \<Rightarrow> Request \<Rightarrow> error + string" where
  "DoRequest w c req =
     (let req = req\<lparr>Header := (Header req)(''X-Api-Key'' \<mapsto> Token c)\<rparr>
      in case http_Do w (HTTPClient c) req of
           Inl err \<Rightarrow> Inl err
         | Inr res \<Rightarrow>
             (case res_Body res of
                Inl err \<Rightarrow> Inl err
              | Inr body \<Rightarrow>
                  if StatusCode res \<noteq> 200 \<and> StatusCode res \<noteq> 201
                  then Inl (Errorf (''status: '' @ fmt_d (StatusCode res) @ '', body: '' @ body))
                  else Inr body))"

definition Validate :: "world \<Rightarrow> Client \<Rightarrow> error option" where
  "Validate w c =
     (case NewRequest w ''GET'' (HostURL c @ ''/validate'') None of
        Inl err \<Rightarrow> Some err
      | Inr req \<Rightarrow> (case DoRequest w c req of Inl err \<Rightarrow> Some err | Inr _ \<Rightarrow> None))"

definition CreateAccount :: "world \<Rightarrow> Client \<Rightarrow> Payload \<Rightarrow> error + Account" where
  "CreateAccount w c payload =
     (case json_Marshal w payload of
        Inl err \<Rightarrow> Inl err
      | Inr rb \<Rightarrow>
     (case NewRequest w ''POST'' (HostURL c @ ''/account'') (Some rb) of
        Inl err \<Rightarrow> Inl err
      | Inr req \<Rightarrow>
     (case DoRequest w c req of
        Inl err \<Rightarrow> Inl err
      | Inr body \<Rightarrow>
     (case json_Unmarshal_Account w body of
        Inl err \<Rightarrow> Inl err
      | Inr account \<Rightarrow> Inr account))))"

definition DeleteAccount :: "world \<Rightarrow> Client \<Rightarrow> Payload \<Rightarrow> error option" where
  "DeleteAccount w c payload =
     (case json_Marshal w payload of
        Inl err \<Rightarrow> Some err
      | Inr rb \<Rightarrow>
     (case NewRequest w ''DELETE'' (HostURL c @ ''/account'') (Some rb) of
        Inl err \<Rightarrow> Some err
      | Inr req \<Rightarrow>
     (case DoRequest w c req of Inl err \<Rightarrow> Some err | Inr _ \<Rightarrow> None)))"

definition GetAccounts :: "world \<Rightarrow> Client \<Rightarrow> error + Account list" where
  "GetAccounts w c =
     (case NewRequest w ''GET'' (HostURL c @ ''/accounts'') None of
        Inl err \<Rightarrow> Inl err
      | Inr req \<Rightarrow>
     (case DoRequest w c req of
        Inl err \<Rightarrow> Inl err
      | Inr body \<Rightarrow>
     (case json_Unmarshal_Accounts w body of
        Inl err \<Rightarrow> Inl err
      | Inr account \<Rightarrow> Inr account)))"

definition GetAccount :: "world \<Rightarrow> Client \<Rightarrow> string \<Rightarrow> error + Account" where
  "GetAccount w c accountID =
     (case NewRequest w ''GET'' (HostURL c @ ''/account?accountID='' @ accountID) None of
        Inl err \<Rightarrow> Inl err
      | Inr req \<Rightarrow>
     (case DoRequest w c req of
        Inl err \<Rightarrow> Inl err
      | Inr body \<Rightarrow>
     (case json_Unmarshal_Account w body of
        Inl err \<Rightarrow> Inl err
      | Inr account \<Rightarrow> Inr account)))"

definition UpdateAccount :: "world \<Rightarrow> Client \<Rightarrow> Payload \<Rightarrow> error + Account" where
  "UpdateAccount w c payload =
     (case json_Marshal w payload of
        Inl err \<Rightarrow> Inl err
      | Inr rb \<Rightarrow>
     (case NewRequest w ''PUT'' (HostURL c @ ''/account'') (Some rb) of
        Inl err \<Rightarrow> Inl err
      | Inr req \<Rightarrow>
     (case DoRequest w c req of
        Inl err \<Rightarrow> Inl err
      | Inr body \<Rightarrow>
     (case json_Unmarshal_Account w body of
        Inl err \<Rightarrow> Inl err
      | Inr account \<Rightarrow> Inr account))))"


section \<open>package provider: configuration\<close>

fun IsNull :: "tfString \<Rightarrow> bool" where
  "IsNull StringNull = True"
| "IsNull _ = False"

fun IsUnknown :: "tfString \<Rightarrow> bool" where
  "IsUnknown StringUnknown = True"
| "IsUnknown _ = False"

record ZestyProviderModel =
  Host :: tfString
  cfg_Token :: tfString

record ConfigureResponse =
  cr_Diagnostics :: Diagnostics
  DataSourceData :: "Client option"
  ResourceData :: "Client option"

text \<open>
  \<^verbatim>\<open>Configure\<close> gets what \<^verbatim>\<open>req.Config.Get\<close> decoded, with the diagnostics of the decoding,
  and the response the framework prepared; it returns the response as it leaves it.
\<close>

definition Configure ::
  "world \<Rightarrow> ZestyProviderModel \<times> Diagnostics \<Rightarrow> ConfigureResponse \<Rightarrow> ConfigureResponse" where
  "Configure w req_Config resp0 =
     (let (config, diags) = req_Config;
          resp = resp0\<lparr>cr_Diagnostics := Append (cr_Diagnostics resp0) diags\<rparr>
      in if HasError (cr_Diagnostics resp) then resp else
     (let resp = (if IsUnknown (Host config)
                  then resp\<lparr>cr_Diagnostics := AddAttributeError (cr_Diagnostics resp) ''host''
                         ''Unknown Zesty API Host''
                         ''The provider cannot create the Zesty API client as there is an unknown configuration value for the Zesty API host.''\<rparr>
                  else resp);
          resp = (if IsUnknown (cfg_Token config)
                  then resp\<lparr>cr_Diagnostics := AddAttributeError (cr_Diagnostics resp) ''token''
                         ''Unknown Zesty API Token''
                         ''The provider cannot create the Zesty API client as there is an unknown configuration value for the Zesty API username.''\<rparr>
                  else resp)
      in if HasError (cr_Diagnostics resp) then resp else
     (let host = os_Getenv w ''ZESTY_HOST'';
          token = os_Getenv w ''ZESTY_API_TOKEN'';
          host = (if \<not> IsNull (Host config) then ValueString (Host config) else host);
          token = (if \<not> IsNull (cfg_Token config) then ValueString (cfg_Token config) else token);
          host = (if host = [] then models_DefaultHostURL else host);
          resp = (if token = []
                  then resp\<lparr>cr_Diagnostics := AddAttributeError (cr_Diagnostics resp) ''token''
                         ''Missing Zesty API Token''
                         ''The provider cannot create the Zesty API client as there is a missing or empty value for the Zesty API token.''\<rparr>
                  else resp)
      in if HasError (cr_Diagnostics resp) then resp else
     (case NewClient (Some host) token of
        Inl err \<Rightarrow>
          resp\<lparr>cr_Diagnostics := AddError (cr_Diagnostics resp)
                 ''Unable to Create Zesty API Client''
                 (''An unexpected error occurred when creating the Zesty API client. Error: '' @ Error err)\<rparr>
      | Inr client \<Rightarrow>
          (case Validate w client of
             Some err \<Rightarrow>
               resp\<lparr>cr_Diagnostics := AddError (cr_Diagnostics resp)
                      ''Unable to Validate Zesty API Client''
                      (''An unexpected error occurred when validating the Zesty API. Error: '' @ Error err)\<rparr>
           | None \<Rightarrow> resp\<lparr>DataSourceData := Some client, ResourceData := Some client\<rparr>)))))"

section \<open>package provider: the account resource\<close>

text \<open>
  The state of the resource, attribute by attribute; an unset \<open>account\<close> is \<open>None\<close>.
  \<^verbatim>\<open>State.Set\<close> and \<^verbatim>\<open>State.SetAttribute\<close> store the value unless the framework reports an
  error for it, and hand back the framework's diagnostics.
\<close>

record tfState =
  st_id :: tfString
  st_account :: "accountModel option"
  st_last_updated :: tfString

definition State_Set :: "world \<Rightarrow> tfState \<Rightarrow> accountResourceModel \<Rightarrow> tfState \<times> Diagnostics" where
  "State_Set w s val =
     (let diags = State_Set_diags w val
      in (if HasError diags then s
          else \<lparr>st_id = arm_ID val, st_account = Some (arm_Account val),
                st_last_updated = arm_LastUpdated val\<rparr>,
          diags))"

definition SetAttribute_id :: "world \<Rightarrow> tfState \<Rightarrow> string \<Rightarrow> tfState \<times> Diagnostics" where
  "SetAttribute_id w s val =
     (let diags = SetAttribute_id_diags w val
      in (if HasError diags then s else s\<lparr>st_id := StringValue val\<rparr>, diags))"

definition SetAttribute_account :: "world \<Rightarrow> tfState \<Rightarrow> accountModel \<Rightarrow> tfState \<times> Diagnostics" where
  "SetAttribute_account w s val =
     (let diags = SetAttribute_account_diags w val
      in (if HasError diags then s else s\<lparr>st_account := Some val\<rparr>, diags))"

record AccountResource =
  client :: Client

record ResourceResponse =
  rs_State :: tfState
  rs_Diagnostics :: Diagnostics

text \<open>The payload \<^verbatim>\<open>Create\<close> and \<^verbatim>\<open>Update\<close> build from the plan, by the same statements.\<close>

definition plan_payload :: "accountResourceModel \<Rightarrow> Payload" where
  "plan_payload plan =
     \<lparr>pl_AccountID = ValueString (m_ID (arm_Account plan)),
      pl_CloudProvider = ValueString (m_CloudProvider (arm_Account plan)),
      pl_AWSRegion = None,
      pl_RoleARN = ValueString (m_RoleARN (arm_Account plan)),
      pl_ExternalID = ValueString (m_ExternalID (arm_Account plan)),
      pl_Products =
        fold (\<lambda>product m. DAList.update (ValueString (p_Name product))
                             \<lparr>Active = ValueBool (p_Active product)\<rparr> m)
             (m_Products (arm_Account plan)) DAList.empty\<rparr>"

definition Create ::
  "world \<Rightarrow> AccountResource \<Rightarrow> accountResourceModel \<times> Diagnostics \<Rightarrow> ResourceResponse \<Rightarrow> ResourceResponse" where
  "Create w r req_Plan resp0 =
     (let (plan, diags) = req_Plan;
          resp = resp0\<lparr>rs_Diagnostics := Append (rs_Diagnostics resp0) diags\<rparr>
      in if HasError (rs_Diagnostics resp) then resp else
     (case CreateAccount w (client r) (plan_payload plan) of
        Inl err \<Rightarrow>
          resp\<lparr>rs_Diagnostics := AddError (rs_Diagnostics resp) ''Error creating account''
                 (''Could not create account, unexpected error: '' @ Error err)\<rparr>
      | Inr account \<Rightarrow>
     (let plan = plan\<lparr>arm_ID := StringValue (AccountID account)\<rparr>;
          (model, diag) = ToModel (yaml_Marshal w) account;
          resp = resp\<lparr>rs_Diagnostics := Append (rs_Diagnostics resp) diag\<rparr>
      in if diag \<noteq> [] then resp else
     (case model of
        None \<Rightarrow> resp
      | Some m \<Rightarrow>
     (let plan = plan\<lparr>arm_Account := m\<rparr>;
          plan = plan\<lparr>arm_LastUpdated := StringValue (time_Now_RFC850 w)\<rparr>;
          (st, diags) = State_Set w (rs_State resp) plan
      in resp\<lparr>rs_State := st, rs_Diagnostics := Append (rs_Diagnostics resp) diags\<rparr>)))))"

definition Read ::
  "world \<Rightarrow> AccountResource \<Rightarrow> accountResourceModel \<times> Diagnostics \<Rightarrow> ResourceResponse \<Rightarrow> ResourceResponse" where
  "Read w r req_State resp0 =
     (let (state, diags) = req_State;
          resp = resp0\<lparr>rs_Diagnostics := Append (rs_Diagnostics resp0) diags\<rparr>
      in if HasError (rs_Diagnostics resp) then resp else
     (case GetAccount w (client r) (ValueString (arm_ID state)) of
        Inl err \<Rightarrow>
          resp\<lparr>rs_Diagnostics := AddError (rs_Diagnostics resp) ''Error Reading Zesty Account''
                 (''Could not read account ID '' @ ValueString (arm_ID state) @ '': '' @ Error err)\<rparr>
      | Inr account \<Rightarrow>
     (let (model, diag) = ToModel (yaml_Marshal w) account;
          resp = resp\<lparr>rs_Diagnostics := Append (rs_Diagnostics resp) diag\<rparr>
      in if diag \<noteq> [] then resp else
     (case model of
        None \<Rightarrow> resp
      | Some m \<Rightarrow>
     (let state = state\<lparr>arm_Account := m\<rparr>;
          (st, diags) = State_Set w (rs_State resp) state
      in resp\<lparr>rs_State := st, rs_Diagnostics := Append (rs_Diagnostics resp) diags\<rparr>)))))"

definition Update ::
  "world \<Rightarrow> AccountResource \<Rightarrow> accountResourceModel \<times> Diagnostics \<Rightarrow> ResourceResponse \<Rightarrow> ResourceResponse" where
  "Update w r req_Plan resp0 =
     (let (plan, diags) = req_Plan;
          resp = resp0\<lparr>rs_Diagnostics := Append (rs_Diagnostics resp0) diags\<rparr>
      in if HasError (rs_Diagnostics resp) then resp else
     (case UpdateAccount w (client r) (plan_payload plan) of
        Inl err \<Rightarrow>
          resp\<lparr>rs_Diagnostics := AddError (rs_Diagnostics resp) ''Error Updating Zesty Account''
                 (''Could not update account, unexpected error: '' @ Error err)\<rparr>
      | Inr updatedAccount \<Rightarrow>
     (let (model, diag) = ToModel (yaml_Marshal w) updatedAccount;
          resp = resp\<lparr>rs_Diagnostics := Append (rs_Diagnostics resp) diag\<rparr>
      in if diag \<noteq> [] then resp else
     (case model of
        None \<Rightarrow> resp
      | Some m \<Rightarrow>
     (let plan = plan\<lparr>arm_ID := StringValue (ValueString (m_ID m))\<rparr>;
          plan = plan\<lparr>arm_Account := m\<rparr>;
          plan = plan\<lparr>arm_LastUpdated := StringValue (time_Now_RFC850 w)\<rparr>;
          (st, diags) = State_Set w (rs_State resp) plan
      in resp\<lparr>rs_State := st, rs_Diagnostics := Append (rs_Diagnostics resp) diags\<rparr>)))))"

text \<open>
  \<^verbatim>\<open>Delete\<close> builds its payload from the state, without products, and never writes
  \<^verbatim>\<open>resp.State\<close>: removing the resource after a \<^verbatim>\<open>Delete\<close> without error is the framework's
  part.
\<close>

definition state_payload :: "accountResourceModel \<Rightarrow> Payload" where
  "state_payload state =
     \<lparr>pl_AccountID = ValueString (m_ID (arm_Account state)),
      pl_CloudProvider = ValueString (m_CloudProvider (arm_Account state)),
      pl_AWSRegion = None,
      pl_RoleARN = ValueString (m_RoleARN (arm_Account state)),
      pl_ExternalID = ValueString (m_ExternalID (arm_Account state)),
      pl_Products = DAList.empty\<rparr>"

definition Delete ::
  "world \<Rightarrow> AccountResource \<Rightarrow> accountResourceModel \<times> Diagnostics \<Rightarrow> ResourceResponse \<Rightarrow> ResourceResponse" where
  "Delete w r req_State resp0 =
     (let (state, diags) = req_State;
          resp = resp0\<lparr>rs_Diagnostics := Append (rs_Diagnostics resp0) diags\<rparr>
      in if HasError (rs_Diagnostics resp) then resp else
     (let payload = state_payload state
      in case DeleteAccount w (client r) payload of
           Some err \<Rightarrow>
             resp\<lparr>rs_Diagnostics := AddError (rs_Diagnostics resp) ''Error Deleting account''
                    (''Could not delete account, unexpected error: '' @ Error err)\<rparr>
         | None \<Rightarrow> resp))"

definition ImportState :: "world \<Rightarrow> AccountResource \<Rightarrow> string \<Rightarrow> ResourceResponse \<Rightarrow> ResourceResponse" where
  "ImportState w r req_ID resp0 =
     (let id = req_ID;
          (st, diags) = SetAttribute_id w (rs_State resp0) id;
          resp = resp0\<lparr>rs_State := st, rs_Diagnostics := Append (rs_Diagnostics resp0) diags\<rparr>
      in case GetAccount w (client r) id of
           Inl err \<Rightarrow>
             resp\<lparr>rs_Diagnostics := AddError (rs_Diagnostics resp) ''Error importing resource''
                    (''Could not read resource with ID '' @ strconv_Quote w id @ '': '' @ Error err)\<rparr>
         | Inr account \<Rightarrow>
     (let (model, diag) = ToModel (yaml_Marshal w) account;
          resp = resp\<lparr>rs_Diagnostics := Append (rs_Diagnostics resp) diag\<rparr>
      in if diag \<noteq> [] then resp else
     (case model of
        None \<Rightarrow> resp
      | Some m \<Rightarrow>
     (let (st, diags) = SetAttribute_account w (rs_State resp) m
      in resp\<lparr>rs_State := st, rs_Diagnostics := Append (rs_Diagnostics resp) diags\<rparr>))))"

section \<open>package provider: the accounts data source\<close>

record AccountsDataSource =
  ds_client :: Client

record DataSourceResponse =
  ds_State :: "accountModel list option"
  ds_Diagnostics :: Diagnostics

text \<open>The body of the loop over the listed accounts: the diagnostic it adds, or the entry it appends.\<close>

definition account_state :: "Account \<Rightarrow> Diagnostic + accountModel" where
  "account_state account =
     (case AdditionalData account ''roleARN'' of
        None \<Rightarrow> Inl (NewErrorDiagnostic ''Missing role ARN for account'' (AccountID account))
      | Some roleARN \<Rightarrow>
     (case assert_string roleARN of
        None \<Rightarrow> Inl (NewErrorDiagnostic ''Erroneous role ARN for account'' (AccountID account))
      | Some roleARNString \<Rightarrow>
     (case AdditionalData account ''externalID'' of
        None \<Rightarrow> Inl (NewErrorDiagnostic ''Missing external ID for account'' (AccountID account))
      | Some externalID \<Rightarrow>
     (case assert_string externalID of
        None \<Rightarrow> Inl (NewErrorDiagnostic ''Erroneous external ID for account'' (AccountID account))
      | Some externalIDString \<Rightarrow>
          (let productNames = sort (range_keys (Products account))
           in Inr \<lparr>m_ID = StringValue (AccountID account),
                   m_CloudProvider = StringValue (CloudProvider account),
                   m_AWSRegion = StringNull,
                   m_RoleARN = StringValue roleARNString,
                   m_ExternalID = StringValue externalIDString,
                   m_Products =
                     map (\<lambda>name. \<lparr>p_Name = StringValue name,
                                    p_Active = BoolValue (Active (map_index (Products account) name)),
                                    p_Values = StringNull\<rparr>)
                         productNames\<rparr>)))))"

text \<open>The loop: it stops at the first account that fails a check.\<close>

fun read_accounts :: "Account list \<Rightarrow> accountModel list \<Rightarrow> Diagnostic + accountModel list" where
  "read_accounts [] accounts = Inr accounts"
| "read_accounts (account # rest) accounts =
     (case account_state account of
        Inl d \<Rightarrow> Inl d
      | Inr accountState \<Rightarrow> read_accounts rest (accounts @ [accountState]))"

definition ds_Read :: "world \<Rightarrow> AccountsDataSource \<Rightarrow> DataSourceResponse \<Rightarrow> DataSourceResponse" where
  "ds_Read w d resp =
     (case GetAccounts w (ds_client d) of
        Inl err \<Rightarrow>
          resp\<lparr>ds_Diagnostics := AddError (ds_Diagnostics resp)
                 ''Unable to Read Zesty Onboarded Accounts'' (Error err)\<rparr>
      | Inr accounts \<Rightarrow>
     (case read_accounts accounts [] of
        Inl d \<Rightarrow> resp\<lparr>ds_Diagnostics := Append (ds_Diagnostics resp) [d]\<rparr>
      | Inr state \<Rightarrow>
          (let diags = ds_State_Set_diags w state
           in resp\<lparr>ds_State := (if HasError diags then ds_State resp else Some state),
                    ds_Diagnostics := Append (ds_Diagnostics resp) diags\<rparr>)))"


section \<open>Notions used in the statements\<close>

text \<open>
  The two kinds of failure the specification names for the conversion, read off the
  diagnostics the code builds: a missing field and a field of the wrong type.
\<close>

definition MissingField :: "Diagnostic \<Rightarrow> bool" where
  "MissingField d \<longleftrightarrow>
     Severity d = SeverityError \<and>
     (Summary d = ''Missing role ARN for account'' \<or> Summary d = ''Missing external ID for account'')"

definition TypeMismatch :: "Diagnostic \<Rightarrow> bool" where
  "TypeMismatch d \<longleftrightarrow>
     Severity d = SeverityError \<and>
     (Summary d = ''Erroneous role ARN for account'' \<or> Summary d = ''Erroneous external ID for account'')"

definition product_names :: "accountModel \<Rightarrow> string list" where
  "product_names m = map (\<lambda>p. ValueString (p_Name p)) (m_Products m)"

text \<open>
  The host and the token \<^verbatim>\<open>Configure\<close> settles on before it substitutes the default host: the
  setting of the configuration when it is not null, the environment variable otherwise.
\<close>

definition resolved_host :: "world \<Rightarrow> ZestyProviderModel \<Rightarrow> string" where
  "resolved_host w config =
     (if IsNull (Host config) then os_Getenv w ''ZESTY_HOST'' else ValueString (Host config))"

definition resolved_token :: "world \<Rightarrow> ZestyProviderModel \<Rightarrow> string" where
  "resolved_token w config =
     (if IsNull (cfg_Token config) then os_Getenv w ''ZESTY_API_TOKEN''
      else ValueString (cfg_Token config))"

definition configured_client :: "world \<Rightarrow> ZestyProviderModel \<Rightarrow> Client" where
  "configured_client w config =
     \<lparr>HostURL = (if resolved_host w config = [] then models_DefaultHostURL
                 else resolved_host w config),
      HTTPClient = \<lparr>Timeout = 60 * Second\<rparr>,
      Token = resolved_token w config\<rparr>"

text \<open>The fresh responses the framework hands to the callbacks.\<close>

definition empty_ConfigureResponse :: ConfigureResponse where
  "empty_ConfigureResponse = \<lparr>cr_Diagnostics = [], DataSourceData = None, ResourceData = None\<rparr>"

definition null_State :: tfState where
  "null_State = \<lparr>st_id = StringNull, st_account = None, st_last_updated = StringNull\<rparr>"

subsection \<open>The YAML encoder on flat mappings of plain words\<close>

text \<open>
  For concrete runs the encoder of gopkg.in/yaml.v3 is fixed on the mappings the runs use:
  a mapping whose keys and values are plain words (ASCII letters, none of the words YAML reads
  as null or as a boolean) is written in block style, one line \<^verbatim>\<open>key: value\<close> per entry in
  the order of the keys, and the empty mapping as \<^verbatim>\<open>{}\<close>. Nothing is said about other
  mappings.
\<close>

definition yaml_reserved :: "string list" where
  "yaml_reserved =
     [''null'', ''Null'', ''NULL'', ''true'', ''True'', ''TRUE'', ''false'', ''False'', ''FALSE'',
      ''y'', ''Y'', ''yes'', ''Yes'', ''YES'', ''n'', ''N'', ''no'', ''No'', ''NO'',
      ''on'', ''On'', ''ON'', ''off'', ''Off'', ''OFF'']"

definition is_letter :: "char \<Rightarrow> bool" where
  "is_letter c \<longleftrightarrow> (CHR ''a'' \<le> c \<and> c \<le> CHR ''z'') \<or> (CHR ''A'' \<le> c \<and> c \<le> CHR ''Z'')"

definition yaml_plain_word :: "string \<Rightarrow> bool" where
  "yaml_plain_word s \<longleftrightarrow> s \<noteq> [] \<and> list_all is_letter s \<and> s \<notin> set yaml_reserved"

definition yaml_flat :: "(string \<Rightarrow> anyv option) \<Rightarrow> bool" where
  "yaml_flat m \<longleftrightarrow>
     finite (dom m) \<and>
     (\<forall>k\<in>dom m. yaml_plain_word k \<and> (\<exists>s. m k = Some (VString s) \<and> yaml_plain_word s))"

definition yaml_line :: "(string \<Rightarrow> anyv option) \<Rightarrow> string \<Rightarrow> string" where
  "yaml_line m k = k @ '': '' @ (case m k of Some (VString s) \<Rightarrow> s | _ \<Rightarrow> []) @ [CHR 0x0A]"

definition yaml_v3_Marshal :: marshaller where
  "yaml_v3_Marshal m =
     (if yaml_flat m
      then Inr (if dom m = {} then ''{}'' @ [CHR 0x0A]
                else concat (map (yaml_line m) (sorted_list_of_set (dom m))))
      else undefined)"

subsection \<open>Accounts and servers of the test suites\<close>

text \<open>An account as the conversion tests build it, from its additional data and its products.\<close>

definition test_account :: "(string \<Rightarrow> anyv option) \<Rightarrow> ProductMap \<Rightarrow> Account" where
  "test_account ad ps =
     \<lparr>OrganizationID = 0, OnboardingStatus = [], AccountID = ''acc'', AWSRegion = None,
      CloudProvider = ''aws'', Products = ps, CreatedAt = 0, UpdatedAt = 0, AdditionalData = ad\<rparr>"

definition valid_data :: "string \<Rightarrow> anyv option" where
  "valid_data = [''roleARN'' \<mapsto> VString ''arn:aws:iam::123456789012:role/example'',
                 ''externalID'' \<mapsto> VString ''external-id'']"

definition filtered_data :: "string \<Rightarrow> anyv option" where
  "filtered_data = valid_data(''values'' \<mapsto>
     VMap [''metadata'' \<mapsto> VString ''x'', ''a'' \<mapsto> VNil, ''b'' \<mapsto> VString ''ok''])"

definition two_products :: ProductMap where
  "two_products = DAList.update ''CM'' \<lparr>Active = False\<rparr>
                    (DAList.update ''Kompass'' \<lparr>Active = True\<rparr> DAList.empty)"

definition two_products_swapped :: ProductMap where
  "two_products_swapped = DAList.update ''Kompass'' \<lparr>Active = True\<rparr>
                            (DAList.update ''CM'' \<lparr>Active = False\<rparr> DAList.empty)"

text \<open>The model of the account with the two products, for a given serialized blob.\<close>

definition test_model :: "string \<Rightarrow> accountModel" where
  "test_model blob =
     \<lparr>m_ID = StringValue ''acc'', m_CloudProvider = StringValue ''aws'', m_AWSRegion = StringNull,
      m_RoleARN = StringValue ''arn:aws:iam::123456789012:role/example'',
      m_ExternalID = StringValue ''external-id'',
      m_Products =
        [\<lparr>p_Name = StringValue ''CM'', p_Active = BoolValue False, p_Values = StringValue blob\<rparr>,
         \<lparr>p_Name = StringValue ''Kompass'', p_Active = BoolValue True, p_Values = StringValue blob\<rparr>]\<rparr>"

text \<open>
  A world in the manner of the client tests: one server answer for every request, one decoding
  for every body, a framework that accepts every value written to the state.
\<close>

definition test_world :: "(error + Response) \<Rightarrow> (error + Account) \<Rightarrow> (string \<Rightarrow> string) \<Rightarrow> world" where
  "test_world answer decoded env =
     \<lparr>http_Do = (\<lambda>_ _. answer),
      http_NewRequest_err = (\<lambda>_ _. None),
      json_Marshal = (\<lambda>_. Inr ''{}''),
      json_Unmarshal_Account = (\<lambda>_. decoded),
      json_Unmarshal_Accounts = (\<lambda>_. case decoded of Inl err \<Rightarrow> Inl err | Inr a \<Rightarrow> Inr [a]),
      yaml_Marshal = yaml_v3_Marshal,
      strconv_Quote = (\<lambda>s. [CHR 0x22] @ s @ [CHR 0x22]),
      os_Getenv = env,
      time_Now_RFC850 = ''Sunday, 01-Nov-26 12:00:00 UTC'',
      State_Set_diags = (\<lambda>_. []),
      SetAttribute_id_diags = (\<lambda>_. []),
      SetAttribute_account_diags = (\<lambda>_. []),
      ds_State_Set_diags = (\<lambda>_. [])\<rparr>"

definition test_client :: Client where
  "test_client = \<lparr>HostURL = ''http://127.0.0.1:8080'', HTTPClient = \<lparr>Timeout = 60 * Second\<rparr>,
                  Token = ''testtoken''\<rparr>"

definition forbidden :: "error + Response" where
  \<open>forbidden = Inr \<lparr>StatusCode = 403, res_Body = Inr ''{"error":"forbidden"}''\<rparr>\<close>

definition ok_answer :: "error + Response" where
  "ok_answer = Inr \<lparr>StatusCode = 200, res_Body = Inr ''{}''\<rparr>"

definition refused :: "error + Response" where
  "refused = Inl (LibraryError ''connection refused'')"

definition truncated :: "error + Response" where
  "truncated = Inr \<lparr>StatusCode = 200, res_Body = Inl (LibraryError ''unexpected EOF'')\<rparr>"

definition test_plan :: accountResourceModel where
  "test_plan =
     \<lparr>arm_ID = StringNull,
      arm_Account = \<lparr>m_ID = StringValue ''acc'', m_CloudProvider = StringValue ''aws'',
                     m_AWSRegion = StringNull,
                     m_RoleARN = StringValue ''arn:aws:iam::123456789012:role/example'',
                     m_ExternalID = StringValue ''external-id'',
                     m_Products = [\<lparr>p_Name = StringValue ''Kompass'', p_Active = BoolValue True,
                                    p_Values = StringNull\<rparr>]\<rparr>,
      arm_LastUpdated = StringNull\<rparr>"


section \<open>The conversion: checks of the two dynamic fields\<close>

lemma assert_string_None_iff: "assert_string v = None \<longleftrightarrow> (\<forall>s. v \<noteq> VString s)"
  by (cases v) simp_all

lemma fmt_T_string_iff: "fmt_T v = ''string'' \<longleftrightarrow> (\<exists>s. v = VString s)"
  by (cases v) simp_all

text \<open>
  C1, as the code has it. An account without \<open>roleARN\<close> is refused with the missing-field
  diagnostic and no model; an account whose \<open>roleARN\<close> is not a string is refused with the
  type-mismatch diagnostic and no model. The checks run in order, so the two checks of
  \<open>externalID\<close> come after them: for an account whose \<open>roleARN\<close> is a string, a missing
  \<open>externalID\<close> gives the missing-field diagnostic and an \<open>externalID\<close> that is not a
  string gives the type-mismatch diagnostic, with no model in both cases.
\<close>

theorem ToModel_field_checks:
  "(AdditionalData a ''roleARN'' = None \<longrightarrow>
      (\<exists>d. ToModel y a = (None, [d]) \<and> MissingField d \<and> Summary d = ''Missing role ARN for account'')) \<and>
   (\<forall>v. AdditionalData a ''roleARN'' = Some v \<and> (\<forall>s. v \<noteq> VString s) \<longrightarrow>
      (\<exists>d. ToModel y a = (None, [d]) \<and> TypeMismatch d \<and> Summary d = ''Erroneous role ARN for account'')) \<and>
   (\<forall>r. AdditionalData a ''roleARN'' = Some (VString r) \<and> AdditionalData a ''externalID'' = None \<longrightarrow>
      (\<exists>d. ToModel y a = (None, [d]) \<and> MissingField d \<and> Summary d = ''Missing external ID for account'')) \<and>
   (\<forall>r v. AdditionalData a ''roleARN'' = Some (VString r) \<and> AdditionalData a ''externalID'' = Some v \<and>
           (\<forall>s. v \<noteq> VString s) \<longrightarrow>
      (\<exists>d. ToModel y a = (None, [d]) \<and> TypeMismatch d \<and> Summary d = ''Erroneous external ID for account''))"
  by (auto simp: ToModel_def MissingField_def TypeMismatch_def NewErrorDiagnostic_def
        assert_string_None_iff[symmetric] split: option.splits)

text \<open>The four failing accounts of \<^verbatim>\<open>TestToModel\<close>.\<close>

theorem ToModel_field_checks_witness:
  "(\<exists>d. ToModel yaml_v3_Marshal (test_account [''externalID'' \<mapsto> VString ''ext''] DAList.empty) = (None, [d])
        \<and> MissingField d \<and> Summary d = ''Missing role ARN for account'') \<and>
   (\<exists>d. ToModel yaml_v3_Marshal (test_account [''roleARN'' \<mapsto> VInt 123, ''externalID'' \<mapsto> VString ''ext''] DAList.empty) = (None, [d])
        \<and> TypeMismatch d \<and> Summary d = ''Erroneous role ARN for account'') \<and>
   (\<exists>d. ToModel yaml_v3_Marshal (test_account [''roleARN'' \<mapsto> VString ''arn:aws''] DAList.empty) = (None, [d])
        \<and> MissingField d \<and> Summary d = ''Missing external ID for account'') \<and>
   (\<exists>d. ToModel yaml_v3_Marshal (test_account [''roleARN'' \<mapsto> VString ''arn:aws'', ''externalID'' \<mapsto> VInt 42] DAList.empty) = (None, [d])
        \<and> TypeMismatch d \<and> Summary d = ''Erroneous external ID for account'')"
  using ToModel_field_checks [of "test_account [''externalID'' \<mapsto> VString ''ext''] DAList.empty" yaml_v3_Marshal]
        ToModel_field_checks [of "test_account [''roleARN'' \<mapsto> VInt 123, ''externalID'' \<mapsto> VString ''ext''] DAList.empty" yaml_v3_Marshal]
        ToModel_field_checks [of "test_account [''roleARN'' \<mapsto> VString ''arn:aws''] DAList.empty" yaml_v3_Marshal]
        ToModel_field_checks [of "test_account [''roleARN'' \<mapsto> VString ''arn:aws'', ''externalID'' \<mapsto> VInt 42] DAList.empty" yaml_v3_Marshal]
  by (simp add: test_account_def)

text \<open>
  C1 as stated fails for \<open>externalID\<close>: an account without \<open>externalID\<close> whose \<open>roleARN\<close>
  is the number 123 is refused with the type-mismatch diagnostic of the role ARN, not with a
  missing-field diagnostic; an account whose \<open>externalID\<close> is the number 42 and that has no
  \<open>roleARN\<close> is refused with the missing-field diagnostic of the role ARN, not with a
  type-mismatch diagnostic.
\<close>

theorem externalID_checks_counterexample:
  "AdditionalData (test_account [''roleARN'' \<mapsto> VInt 123] DAList.empty) ''externalID'' = None \<and>
   ToModel yaml_v3_Marshal (test_account [''roleARN'' \<mapsto> VInt 123] DAList.empty) =
     (None, [NewErrorDiagnostic ''Erroneous role ARN for account'' ''Expected string for role ARN but got int'']) \<and>
   \<not> MissingField (NewErrorDiagnostic ''Erroneous role ARN for account'' ''Expected string for role ARN but got int'') \<and>
   AdditionalData (test_account [''externalID'' \<mapsto> VInt 42] DAList.empty) ''externalID'' = Some (VInt 42) \<and>
   ToModel yaml_v3_Marshal (test_account [''externalID'' \<mapsto> VInt 42] DAList.empty) =
     (None, [NewErrorDiagnostic ''Missing role ARN for account'' ''account.AdditionalData.roleARN is nil or empty'']) \<and>
   \<not> TypeMismatch (NewErrorDiagnostic ''Missing role ARN for account'' ''account.AdditionalData.roleARN is nil or empty'')"
  by (simp add: ToModel_def test_account_def MissingField_def TypeMismatch_def NewErrorDiagnostic_def)

text \<open>
  C10. When \<open>roleARN\<close> is a string and \<open>externalID\<close> is present but not a string, the detail
  of the diagnostic names the dynamic type of the \<open>roleARN\<close> value, which is \<open>string\<close>, and
  not the type of the \<open>externalID\<close> value that failed the check.
\<close>

theorem externalID_mismatch_reports_roleARN_type:
  assumes "AdditionalData a ''roleARN'' = Some (VString r)"
    and "AdditionalData a ''externalID'' = Some v"
    and "\<forall>s. v \<noteq> VString s"
  shows "\<exists>d. ToModel y a = (None, [d]) \<and>
             Summary d = ''Erroneous external ID for account'' \<and>
             Detail d = ''Expected string for external ID but got '' @ fmt_T (VString r) \<and>
             Detail d = ''Expected string for external ID but got string'' \<and>
             Detail d \<noteq> ''Expected string for external ID but got '' @ fmt_T v"
proof -
  from assms(3) have none: "assert_string v = None"
    by (simp add: assert_string_None_iff)
  from assms(3) have "fmt_T v \<noteq> ''string''"
    by (simp add: fmt_T_string_iff)
  with assms(1,2) none show ?thesis
    by (simp add: ToModel_def NewErrorDiagnostic_def)
qed

theorem externalID_mismatch_reports_roleARN_type_witness:
  "\<exists>d. ToModel yaml_v3_Marshal (test_account [''roleARN'' \<mapsto> VString ''arn:aws'', ''externalID'' \<mapsto> VInt 42] DAList.empty) = (None, [d]) \<and>
       Detail d = ''Expected string for external ID but got string'' \<and>
       Detail d \<noteq> ''Expected string for external ID but got int''"
  using externalID_mismatch_reports_roleARN_type
    [of "test_account [''roleARN'' \<mapsto> VString ''arn:aws'', ''externalID'' \<mapsto> VInt 42] DAList.empty"
        "''arn:aws''" "VInt 42" yaml_v3_Marshal]
  by (auto simp: test_account_def)

section \<open>The client\<close>

text \<open>
  C9. For every host pointer, nil or not, and every token, the empty one too, \<^verbatim>\<open>NewClient\<close>
  returns a client and no error; the client carries the token and the timeout of 60 seconds.
\<close>

theorem NewClient_never_fails:
  "\<exists>c. NewClient host token = Inr c \<and> Token c = token \<and> Timeout (HTTPClient c) = 60 * Second"
  by (simp add: NewClient_def Let_def split: option.splits)

text \<open>
  C3, as the code has it. With a nil host, \<^verbatim>\<open>NewClient\<close> returns a client whose host is the
  constant \<^verbatim>\<open>DefaultHostURL\<close> of package client, \<^verbatim>\<open>http://localhost:9000\<close>.
\<close>

theorem NewClient_nil_host_default:
  "\<exists>c. NewClient None token = Inr c \<and> HostURL c = client_DefaultHostURL \<and>
       HostURL c = ''http://localhost:9000''"
  by (simp add: NewClient_def client_DefaultHostURL_def)

text \<open>
  C3 as stated fails: the host of \<^verbatim>\<open>NewClient(nil, "tok")\<close> is not the production URL, the
  constant \<^verbatim>\<open>DefaultHostURL\<close> of package models.
\<close>

theorem NewClient_nil_host_counterexample:
  "NewClient None ''tok'' =
     Inr \<lparr>HostURL = ''http://localhost:9000'', HTTPClient = \<lparr>Timeout = 60 * Second\<rparr>, Token = ''tok''\<rparr> \<and>
   ''http://localhost:9000'' \<noteq> models_DefaultHostURL"
  by (simp add: NewClient_def client_DefaultHostURL_def models_DefaultHostURL_def)

text \<open>
  C4, as the code has it. Once the transport has returned a response and its body has been
  read: with status 200 or 201 the request succeeds and returns the body as read; with any
  other status it fails with the error whose text is \<^verbatim>\<open>status: <code>, body: <body>\<close>, the
  body verbatim. When the transport fails, the request fails with the transport's error, and
  when reading the body fails, it fails with the error of the read; in both cases no status is
  looked at. The request is sent with the token in the API key header.
\<close>

theorem DoRequest_classification:
  "(\<forall>res body. http_Do w (HTTPClient c) (req\<lparr>Header := (Header req)(''X-Api-Key'' \<mapsto> Token c)\<rparr>) = Inr res \<and>
       res_Body res = Inr body \<longrightarrow>
       DoRequest w c req =
         (if StatusCode res = 200 \<or> StatusCode res = 201 then Inr body
          else Inl (Errorf (''status: '' @ fmt_d (StatusCode res) @ '', body: '' @ body)))) \<and>
   (\<forall>err. http_Do w (HTTPClient c) (req\<lparr>Header := (Header req)(''X-Api-Key'' \<mapsto> Token c)\<rparr>) = Inl err \<longrightarrow>
       DoRequest w c req = Inl err) \<and>
   (\<forall>res err. http_Do w (HTTPClient c) (req\<lparr>Header := (Header req)(''X-Api-Key'' \<mapsto> Token c)\<rparr>) = Inr res \<and>
       res_Body res = Inl err \<longrightarrow>
       DoRequest w c req = Inl err)"
  by (simp add: DoRequest_def Let_def)

text \<open>A server that answers 403, one that answers 200, and a refused connection.\<close>

theorem DoRequest_classification_witness:
  \<open>DoRequest (test_world forbidden (Inl (LibraryError ''EOF'')) (\<lambda>_. [])) test_client
      \<lparr>Method = ''GET'', URL = ''http://127.0.0.1:8080/validate'', Header = Map.empty, req_Body = None\<rparr>
     = Inl (Errorf ''status: 403, body: {"error":"forbidden"}'') \<and>
   DoRequest (test_world ok_answer (Inl (LibraryError ''EOF'')) (\<lambda>_. [])) test_client
      \<lparr>Method = ''GET'', URL = ''http://127.0.0.1:8080/validate'', Header = Map.empty, req_Body = None\<rparr>
     = Inr ''{}'' \<and>
   DoRequest (test_world refused (Inl (LibraryError ''EOF'')) (\<lambda>_. [])) test_client
      \<lparr>Method = ''GET'', URL = ''http://127.0.0.1:8080/validate'', Header = Map.empty, req_Body = None\<rparr>
     = Inl (LibraryError ''connection refused'')\<close>
  using DoRequest_classification
          [of "test_world forbidden (Inl (LibraryError ''EOF'')) (\<lambda>_. [])" test_client
              "\<lparr>Method = ''GET'', URL = ''http://127.0.0.1:8080/validate'', Header = Map.empty, req_Body = None\<rparr>"]
        DoRequest_classification
          [of "test_world ok_answer (Inl (LibraryError ''EOF'')) (\<lambda>_. [])" test_client
              "\<lparr>Method = ''GET'', URL = ''http://127.0.0.1:8080/validate'', Header = Map.empty, req_Body = None\<rparr>"]
        DoRequest_classification
          [of "test_world refused (Inl (LibraryError ''EOF'')) (\<lambda>_. [])" test_client
              "\<lparr>Method = ''GET'', URL = ''http://127.0.0.1:8080/validate'', Header = Map.empty, req_Body = None\<rparr>"]
  by (simp add: test_world_def forbidden_def ok_answer_def refused_def fmt_d_def fmt_nat.simps digit_char_def)

text \<open>
  C4 as stated fails for a response whose body cannot be read: with status 200 and a
  connection that breaks within the body the request fails, with the error of the read.
\<close>

theorem DoRequest_body_counterexample:
  "http_Do (test_world truncated (Inl (LibraryError ''EOF'')) (\<lambda>_. [])) (HTTPClient test_client)
      \<lparr>Method = ''GET'', URL = ''http://127.0.0.1:8080/validate'',
       Header = [''X-Api-Key'' \<mapsto> ''testtoken''], req_Body = None\<rparr> =
     Inr \<lparr>StatusCode = 200, res_Body = Inl (LibraryError ''unexpected EOF'')\<rparr> \<and>
   DoRequest (test_world truncated (Inl (LibraryError ''EOF'')) (\<lambda>_. [])) test_client
      \<lparr>Method = ''GET'', URL = ''http://127.0.0.1:8080/validate'', Header = Map.empty, req_Body = None\<rparr>
     = Inl (LibraryError ''unexpected EOF'')"
  by (simp add: DoRequest_def test_world_def truncated_def test_client_def)

section \<open>Evaluating the test accounts and the test world\<close>

lemma test_account_fields:
  "AccountID (test_account ad ps) = ''acc''"
  "CloudProvider (test_account ad ps) = ''aws''"
  "Products (test_account ad ps) = ps"
  "AdditionalData (test_account ad ps) = ad"
  by (simp_all add: test_account_def)

lemma valid_data_fields:
  "valid_data ''roleARN'' = Some (VString ''arn:aws:iam::123456789012:role/example'')"
  "valid_data ''externalID'' = Some (VString ''external-id'')"
  by (simp_all add: valid_data_def)

lemma filtered_data_fields:
  "filtered_data ''roleARN'' = Some (VString ''arn:aws:iam::123456789012:role/example'')"
  "filtered_data ''externalID'' = Some (VString ''external-id'')"
  "filtered_data ''values'' =
     Some (VMap [''metadata'' \<mapsto> VString ''x'', ''a'' \<mapsto> VNil, ''b'' \<mapsto> VString ''ok''])"
  by (simp_all add: filtered_data_def valid_data_def)

lemma range_keys_two_products: "range_keys two_products = [''Kompass'', ''CM'']"
  by (simp add: range_keys_def two_products_def DAList.update.rep_eq DAList.empty.rep_eq)

lemma range_keys_two_products_swapped: "range_keys two_products_swapped = [''CM'', ''Kompass'']"
  by (simp add: range_keys_def two_products_swapped_def DAList.update.rep_eq DAList.empty.rep_eq)

lemma two_products_same_entries:
  "set (DAList.impl_of two_products_swapped) = set (DAList.impl_of two_products)"
  by (auto simp: two_products_def two_products_swapped_def DAList.update.rep_eq DAList.empty.rep_eq)

lemma map_index_two_products:
  "map_index two_products ''CM'' = \<lparr>Active = False\<rparr>"
  "map_index two_products ''Kompass'' = \<lparr>Active = True\<rparr>"
  by (simp_all add: map_index_def two_products_def DAList.lookup.rep_eq DAList.update.rep_eq
        DAList.empty.rep_eq)

lemma yaml_v3_Marshal_empty: "yaml_v3_Marshal Map.empty = Inr (''{}'' @ [CHR 0x0A])"
  by (simp add: yaml_v3_Marshal_def yaml_flat_def)

lemma yaml_v3_Marshal_b_ok:
  "yaml_v3_Marshal [''b'' \<mapsto> VString ''ok''] = Inr (''b: ok'' @ [CHR 0x0A])"
  by (simp add: yaml_v3_Marshal_def yaml_flat_def yaml_plain_word_def is_letter_def
        yaml_reserved_def yaml_line_def)

lemma parseValues_valid_data: "parseValues valid_data = Map.empty"
  by (simp add: parseValues_def valid_data_def)

lemma parseValues_filtered_data: "parseValues filtered_data = [''b'' \<mapsto> VString ''ok'']"
  by (rule ext) (simp add: parseValues_def filtered_data_def valid_data_def)

lemma ToModel_valid_two_products:
  "ToModel yaml_v3_Marshal (test_account valid_data two_products) =
     (Some (test_model (''{}'' @ [CHR 0x0A])), [])"
  by (simp add: ToModel_def test_account_fields parseValues_valid_data yaml_v3_Marshal_empty
        range_keys_two_products map_index_two_products test_model_def valid_data_fields)

lemma ToModel_filtered_two_products:
  "ToModel yaml_v3_Marshal (test_account filtered_data two_products) =
     (Some (test_model (''b: ok'' @ [CHR 0x0A])), [])"
  by (simp add: ToModel_def test_account_fields parseValues_filtered_data yaml_v3_Marshal_b_ok
        range_keys_two_products map_index_two_products test_model_def filtered_data_fields)

lemma test_world_fields:
  "http_Do (test_world answer decoded env) = (\<lambda>_ _. answer)"
  "http_NewRequest_err (test_world answer decoded env) = (\<lambda>_ _. None)"
  "json_Marshal (test_world answer decoded env) = (\<lambda>_. Inr ''{}'')"
  "json_Unmarshal_Account (test_world answer decoded env) = (\<lambda>_. decoded)"
  "json_Unmarshal_Accounts (test_world answer (Inr a) env) = (\<lambda>_. Inr [a])"
  "yaml_Marshal (test_world answer decoded env) = yaml_v3_Marshal"
  "os_Getenv (test_world answer decoded env) = env"
  "State_Set_diags (test_world answer decoded env) = (\<lambda>_. [])"
  "SetAttribute_id_diags (test_world answer decoded env) = (\<lambda>_. [])"
  "SetAttribute_account_diags (test_world answer decoded env) = (\<lambda>_. [])"
  "ds_State_Set_diags (test_world answer decoded env) = (\<lambda>_. [])"
  "time_Now_RFC850 (test_world answer decoded env) = ''Sunday, 01-Nov-26 12:00:00 UTC''"
  "strconv_Quote (test_world answer decoded env) = (\<lambda>s. [CHR 0x22] @ s @ [CHR 0x22])"
  by (simp_all add: test_world_def)

lemma DoRequest_test_world_ok:
  "DoRequest (test_world ok_answer decoded env) c req = Inr ''{}''"
  by (simp add: DoRequest_def test_world_fields ok_answer_def)

lemma DoRequest_test_world_refused:
  "DoRequest (test_world refused decoded env) c req = Inl (LibraryError ''connection refused'')"
  by (simp add: DoRequest_def test_world_fields refused_def)

lemma NewRequest_test_world:
  "NewRequest (test_world answer decoded env) method url body =
     Inr \<lparr>Method = method, URL = url, Header = Map.empty, req_Body = body\<rparr>"
  by (simp add: NewRequest_def test_world_fields)

lemma GetAccount_test_world:
  "GetAccount (test_world ok_answer decoded env) c i = decoded"
  "GetAccount (test_world refused decoded env) c i = Inl (LibraryError ''connection refused'')"
  by (simp_all add: GetAccount_def NewRequest_test_world DoRequest_test_world_ok
        DoRequest_test_world_refused test_world_fields split: sum.splits)

lemma CreateAccount_test_world:
  "CreateAccount (test_world ok_answer decoded env) c p = decoded"
  "CreateAccount (test_world refused decoded env) c p = Inl (LibraryError ''connection refused'')"
  by (simp_all add: CreateAccount_def NewRequest_test_world DoRequest_test_world_ok
        DoRequest_test_world_refused test_world_fields split: sum.splits)

lemma UpdateAccount_test_world:
  "UpdateAccount (test_world ok_answer decoded env) c p = decoded"
  "UpdateAccount (test_world refused decoded env) c p = Inl (LibraryError ''connection refused'')"
  by (simp_all add: UpdateAccount_def NewRequest_test_world DoRequest_test_world_ok
        DoRequest_test_world_refused test_world_fields split: sum.splits)

lemma DeleteAccount_test_world:
  "DeleteAccount (test_world ok_answer decoded env) c p = None"
  "DeleteAccount (test_world refused decoded env) c p = Some (LibraryError ''connection refused'')"
  by (simp_all add: DeleteAccount_def NewRequest_test_world DoRequest_test_world_ok
        DoRequest_test_world_refused test_world_fields split: sum.splits)

lemma GetAccounts_test_world:
  "GetAccounts (test_world ok_answer (Inr a) env) c = Inr [a]"
  by (simp add: GetAccounts_def NewRequest_test_world DoRequest_test_world_ok test_world_fields)

lemma Validate_test_world:
  "Validate (test_world ok_answer decoded env) c = None"
  "Validate (test_world refused decoded env) c = Some (LibraryError ''connection refused'')"
  by (simp_all add: Validate_def NewRequest_test_world DoRequest_test_world_ok
        DoRequest_test_world_refused)

lemma Create_test:
  "Create (test_world ok_answer (Inr (test_account valid_data two_products)) env)
      \<lparr>client = test_client\<rparr> (test_plan, []) \<lparr>rs_State = null_State, rs_Diagnostics = []\<rparr> =
   \<lparr>rs_State = \<lparr>st_id = StringValue ''acc'', st_account = Some (test_model (''{}'' @ [CHR 0x0A])),
                 st_last_updated = StringValue ''Sunday, 01-Nov-26 12:00:00 UTC''\<rparr>,
    rs_Diagnostics = []\<rparr>"
  by (simp add: Create_def CreateAccount_test_world ToModel_valid_two_products test_world_fields
        State_Set_def HasError_def test_account_fields)

lemma Read_test:
  "Read (test_world ok_answer (Inr (test_account valid_data two_products)) env)
      \<lparr>client = test_client\<rparr> (test_plan\<lparr>arm_ID := StringValue ''acc''\<rparr>, [])
      \<lparr>rs_State = null_State, rs_Diagnostics = []\<rparr> =
   \<lparr>rs_State = \<lparr>st_id = StringValue ''acc'', st_account = Some (test_model (''{}'' @ [CHR 0x0A])),
                 st_last_updated = StringNull\<rparr>,
    rs_Diagnostics = []\<rparr>"
  by (simp add: Read_def GetAccount_test_world ToModel_valid_two_products test_world_fields
        State_Set_def HasError_def test_plan_def)

lemma Update_test:
  "Update (test_world ok_answer (Inr (test_account valid_data two_products)) env)
      \<lparr>client = test_client\<rparr> (test_plan, []) \<lparr>rs_State = null_State, rs_Diagnostics = []\<rparr> =
   \<lparr>rs_State = \<lparr>st_id = StringValue ''acc'', st_account = Some (test_model (''{}'' @ [CHR 0x0A])),
                 st_last_updated = StringValue ''Sunday, 01-Nov-26 12:00:00 UTC''\<rparr>,
    rs_Diagnostics = []\<rparr>"
  by (simp add: Update_def UpdateAccount_test_world ToModel_valid_two_products test_world_fields
        State_Set_def HasError_def test_model_def)

lemma ImportState_test:
  "ImportState (test_world ok_answer (Inr (test_account valid_data two_products)) env)
      \<lparr>client = test_client\<rparr> ''acc'' \<lparr>rs_State = null_State, rs_Diagnostics = []\<rparr> =
   \<lparr>rs_State = \<lparr>st_id = StringValue ''acc'', st_account = Some (test_model (''{}'' @ [CHR 0x0A])),
                 st_last_updated = StringNull\<rparr>,
    rs_Diagnostics = []\<rparr>"
  by (simp add: ImportState_def GetAccount_test_world ToModel_valid_two_products test_world_fields
        SetAttribute_id_def SetAttribute_account_def HasError_def null_State_def)

section \<open>The conversion: the serialized values and the product list\<close>

lemma ToModel_Some_products:
  assumes "ToModel y a = (Some m, ds)"
  shows "product_names m = sort (range_keys (Products a))"
  using assms
  by (auto simp: ToModel_def product_names_def Let_def comp_def split: option.splits sum.splits)

lemma ToModel_Some_values:
  assumes "ToModel y a = (Some m, ds)"
  shows "\<exists>valuesBytes. y (parseValues (AdditionalData a)) = Inr valuesBytes \<and>
           (\<forall>p\<in>set (m_Products m). p_Values p = StringValue valuesBytes)"
  using assms
  by (auto simp: ToModel_def Let_def split: option.splits sum.splits)

lemma ToModel_None_diag:
  "fst (ToModel y a) = None \<Longrightarrow> snd (ToModel y a) \<noteq> [] \<and> HasError (snd (ToModel y a))"
  by (auto simp: ToModel_def Let_def HasError_def NewErrorDiagnostic_def
        split: option.splits sum.splits)

lemma distinct_range_keys: "distinct (range_keys ps)"
  by (simp add: range_keys_def)

lemma ToModel_sorted:
  assumes "ToModel y a = (Some m, ds)"
  shows "sorted (product_names m) \<and> distinct (product_names m) \<and>
         set (product_names m) = set (range_keys (Products a)) \<and>
         length (m_Products m) = length (range_keys (Products a))"
proof -
  have "length (m_Products m) = length (product_names m)"
    by (simp add: product_names_def)
  then show ?thesis
    by (simp add: ToModel_Some_products[OF assms] distinct_range_keys)
qed

lemma same_entries_same_lookup:
  assumes "set (DAList.impl_of ps') = set (DAList.impl_of ps)"
  shows "DAList.lookup ps' = DAList.lookup ps"
  using assms by (simp add: DAList.lookup.rep_eq map_of_inject_set)

lemma same_entries_same_sorted_keys:
  assumes "set (DAList.impl_of ps') = set (DAList.impl_of ps)"
  shows "sort (range_keys ps') = sort (range_keys ps)"
proof (rule sorted_distinct_set_unique)
  have "fst ` set (DAList.impl_of ps') = fst ` set (DAList.impl_of ps)"
    using assms by simp
  then show "set (sort (range_keys ps')) = set (sort (range_keys ps))"
    by (simp add: range_keys_def)
qed (simp_all add: distinct_range_keys)

lemma ToModel_order_independent:
  assumes "set (DAList.impl_of ps') = set (DAList.impl_of (Products a))"
  shows "ToModel y (a\<lparr>Products := ps'\<rparr>) = ToModel y a"
  by (simp add: ToModel_def map_index_def same_entries_same_lookup[OF assms]
        same_entries_same_sorted_keys[OF assms] Let_def split: option.splits sum.splits)

lemma parseValues_filter:
  assumes "input ''values'' = Some (VMap vm)"
  shows "parseValues input k = (if k = ''metadata'' \<or> vm k = Some VNil then None else vm k)"
  using assms by (simp add: parseValues_def split: option.splits)

text \<open>
  C2, as the code has it. When the additional data hold a \<open>values\<close> map, the conversion
  serializes that map without its entries of value nil and without its entry \<open>metadata\<close>:
  from \<^verbatim>\<open>{"metadata": "x", "a": nil, "b": "ok"}\<close> exactly the map with the one entry
  \<open>b\<close>, \<open>ok\<close> is handed to the YAML encoder. What the encoder returns for the filtered map
  is the value of \<open>values\<close> in every product entry of the model.
\<close>

theorem values_filtered_and_shared:
  "(\<forall>vm k. AdditionalData a ''values'' = Some (VMap vm) \<longrightarrow>
      parseValues (AdditionalData a) k =
        (if k = ''metadata'' \<or> vm k = Some VNil then None else vm k)) \<and>
   (AdditionalData a ''values'' =
        Some (VMap [''metadata'' \<mapsto> VString ''x'', ''a'' \<mapsto> VNil, ''b'' \<mapsto> VString ''ok'']) \<longrightarrow>
      parseValues (AdditionalData a) = [''b'' \<mapsto> VString ''ok'']) \<and>
   (\<forall>m ds. ToModel y a = (Some m, ds) \<longrightarrow>
      (\<exists>valuesBytes. y (parseValues (AdditionalData a)) = Inr valuesBytes \<and>
         (\<forall>p\<in>set (m_Products m). p_Values p = StringValue valuesBytes)))"
proof (intro conjI allI impI)
  fix vm k assume "AdditionalData a ''values'' = Some (VMap vm)"
  then show "parseValues (AdditionalData a) k =
      (if k = ''metadata'' \<or> vm k = Some VNil then None else vm k)"
    by (rule parseValues_filter)
next
  assume "AdditionalData a ''values'' =
      Some (VMap [''metadata'' \<mapsto> VString ''x'', ''a'' \<mapsto> VNil, ''b'' \<mapsto> VString ''ok''])"
  then show "parseValues (AdditionalData a) = [''b'' \<mapsto> VString ''ok'']"
    by (intro ext) (simp add: parseValues_filter)
next
  fix m ds assume "ToModel y a = (Some m, ds)"
  then show "\<exists>valuesBytes. y (parseValues (AdditionalData a)) = Inr valuesBytes \<and>
      (\<forall>p\<in>set (m_Products m). p_Values p = StringValue valuesBytes)"
    by (rule ToModel_Some_values)
qed

text \<open>The account with the two products and the \<open>values\<close> map of the example.\<close>

theorem values_filtered_and_shared_witness:
  "parseValues (AdditionalData (test_account filtered_data two_products)) ''metadata'' = None \<and>
   parseValues (AdditionalData (test_account filtered_data two_products)) ''a'' = None \<and>
   parseValues (AdditionalData (test_account filtered_data two_products)) = [''b'' \<mapsto> VString ''ok''] \<and>
   yaml_v3_Marshal [''b'' \<mapsto> VString ''ok''] = Inr (''b: ok'' @ [CHR 0x0A]) \<and>
   list_all (\<lambda>p. p_Values p = StringValue (''b: ok'' @ [CHR 0x0A]))
     (m_Products (test_model (''b: ok'' @ [CHR 0x0A])))"
proof -
  let ?a = "test_account filtered_data two_products"
  note claim = values_filtered_and_shared [of ?a yaml_v3_Marshal]
  have "AdditionalData ?a ''values'' =
      Some (VMap [''metadata'' \<mapsto> VString ''x'', ''a'' \<mapsto> VNil, ''b'' \<mapsto> VString ''ok''])"
    by (simp add: test_account_fields filtered_data_fields)
  with claim have filtered: "parseValues (AdditionalData ?a) = [''b'' \<mapsto> VString ''ok'']"
    by blast
  from claim ToModel_filtered_two_products
  obtain valuesBytes where
    "yaml_v3_Marshal (parseValues (AdditionalData ?a)) = Inr valuesBytes"
    "\<forall>p\<in>set (m_Products (test_model (''b: ok'' @ [CHR 0x0A]))). p_Values p = StringValue valuesBytes"
    by blast
  with filtered show ?thesis
    by (simp add: yaml_v3_Marshal_b_ok list_all_iff)
qed

text \<open>
  C2 as stated fails on the text: for the \<open>values\<close> map of the example the value attached to
  the products is the YAML block \<^verbatim>\<open>b: ok\<close> with its line end, not the text
  \<^verbatim>\<open>{"b": "ok"}\<close>.
\<close>

theorem values_text_counterexample:
  \<open>AdditionalData (test_account filtered_data two_products) ''values'' =
     Some (VMap [''metadata'' \<mapsto> VString ''x'', ''a'' \<mapsto> VNil, ''b'' \<mapsto> VString ''ok'']) \<and>
   ToModel yaml_v3_Marshal (test_account filtered_data two_products) =
     (Some (test_model (''b: ok'' @ [CHR 0x0A])), []) \<and>
   map p_Values (m_Products (test_model (''b: ok'' @ [CHR 0x0A]))) =
     [StringValue (''b: ok'' @ [CHR 0x0A]), StringValue (''b: ok'' @ [CHR 0x0A])] \<and>
   ''b: ok'' @ [CHR 0x0A] \<noteq> ''{"b": "ok"}''\<close>
  by (simp add: ToModel_filtered_two_products test_account_fields filtered_data_fields
        test_model_def)

section \<open>The account resource: what the callbacks write\<close>

lemma HasError_Append: "HasError (Append ds new) \<longleftrightarrow> HasError ds \<or> HasError new"
  by (induction new arbitrary: ds) (auto simp: HasError_def list_ex_iff)

lemma HasError_NewErrorDiagnostic: "HasError [NewErrorDiagnostic summary detail]"
  by (simp add: HasError_def NewErrorDiagnostic_def)

lemma HasError_AddError: "HasError (AddError ds summary detail)"
  unfolding AddError_def HasError_Append
  by (simp add: HasError_NewErrorDiagnostic)

lemma HasError_AddAttributeError: "HasError (AddAttributeError ds p summary detail)"
  unfolding AddAttributeError_def HasError_Append
  by (simp add: HasError_def NewAttributeErrorDiagnostic_def)

lemma ToModel_result:
  "ToModel y a = (model, ds) \<Longrightarrow>
     (model = None \<and> ds \<noteq> [] \<and> HasError ds) \<or> ((\<exists>m. model = Some m) \<and> ds = [])"
  by (auto simp: ToModel_def Let_def HasError_def NewErrorDiagnostic_def
        split: option.splits sum.splits)

lemma Create_written:
  assumes "rs_State (Create w r rp resp) \<noteq> rs_State resp \<or>
           \<not> HasError (rs_Diagnostics (Create w r rp resp))"
  shows "\<exists>account m. ToModel (yaml_Marshal w) account = (Some m, []) \<and>
           st_account (rs_State (Create w r rp resp)) = Some m"
  using assms
  by (auto simp: Create_def Let_def State_Set_def HasError_Append HasError_AddError
        split: prod.splits sum.splits option.splits if_splits dest: ToModel_result)

lemma Read_written:
  assumes "rs_State (Read w r rp resp) \<noteq> rs_State resp \<or>
           \<not> HasError (rs_Diagnostics (Read w r rp resp))"
  shows "\<exists>account m. ToModel (yaml_Marshal w) account = (Some m, []) \<and>
           st_account (rs_State (Read w r rp resp)) = Some m"
  using assms
  by (auto simp: Read_def Let_def State_Set_def HasError_Append HasError_AddError
        split: prod.splits sum.splits option.splits if_splits dest: ToModel_result)

lemma Update_written:
  assumes "rs_State (Update w r rp resp) \<noteq> rs_State resp \<or>
           \<not> HasError (rs_Diagnostics (Update w r rp resp))"
  shows "\<exists>account m. ToModel (yaml_Marshal w) account = (Some m, []) \<and>
           st_account (rs_State (Update w r rp resp)) = Some m"
  using assms
  by (auto simp: Update_def Let_def State_Set_def HasError_Append HasError_AddError
        split: prod.splits sum.splits option.splits if_splits dest: ToModel_result)

lemma ImportState_written:
  assumes "st_account (rs_State (ImportState w r i resp)) \<noteq> st_account (rs_State resp) \<or>
           \<not> HasError (rs_Diagnostics (ImportState w r i resp))"
  shows "\<exists>account m. ToModel (yaml_Marshal w) account = (Some m, []) \<and>
           st_account (rs_State (ImportState w r i resp)) = Some m"
  using assms
  by (auto simp: ImportState_def Let_def SetAttribute_id_def SetAttribute_account_def
        HasError_Append HasError_AddError
        split: prod.splits sum.splits option.splits if_splits dest: ToModel_result)

text \<open>
  C5. For every account the conversion accepts, the names of the product list are sorted in
  the lexicographic order of strings and hold each key of the product map once, so the list
  has one entry per product. The result does not depend on the order in which the map is
  visited: two accounts that differ only in that order convert to the same result. Hence,
  whenever \<^verbatim>\<open>Create\<close>, \<^verbatim>\<open>Read\<close> or \<^verbatim>\<open>Update\<close> changes the state or returns without error, the
  account of the state holds a sorted product list, and so does the account attribute
  whenever \<^verbatim>\<open>ImportState\<close> changes it or returns without error.
\<close>

theorem product_list_sorted:
  "(\<forall>m ds. ToModel y a = (Some m, ds) \<longrightarrow>
      sorted (product_names m) \<and> distinct (product_names m) \<and>
      set (product_names m) = set (range_keys (Products a)) \<and>
      length (m_Products m) = length (range_keys (Products a))) \<and>
   (\<forall>ps'. set (DAList.impl_of ps') = set (DAList.impl_of (Products a)) \<longrightarrow>
      ToModel y (a\<lparr>Products := ps'\<rparr>) = ToModel y a) \<and>
   (rs_State (Create w r cp resp) \<noteq> rs_State resp \<or>
    \<not> HasError (rs_Diagnostics (Create w r cp resp)) \<longrightarrow>
      (\<exists>m. st_account (rs_State (Create w r cp resp)) = Some m \<and>
           sorted (product_names m) \<and> distinct (product_names m))) \<and>
   (rs_State (Read w r rs resp) \<noteq> rs_State resp \<or>
    \<not> HasError (rs_Diagnostics (Read w r rs resp)) \<longrightarrow>
      (\<exists>m. st_account (rs_State (Read w r rs resp)) = Some m \<and>
           sorted (product_names m) \<and> distinct (product_names m))) \<and>
   (rs_State (Update w r up resp) \<noteq> rs_State resp \<or>
    \<not> HasError (rs_Diagnostics (Update w r up resp)) \<longrightarrow>
      (\<exists>m. st_account (rs_State (Update w r up resp)) = Some m \<and>
           sorted (product_names m) \<and> distinct (product_names m))) \<and>
   (st_account (rs_State (ImportState w r i resp)) \<noteq> st_account (rs_State resp) \<or>
    \<not> HasError (rs_Diagnostics (ImportState w r i resp)) \<longrightarrow>
      (\<exists>m. st_account (rs_State (ImportState w r i resp)) = Some m \<and>
           sorted (product_names m) \<and> distinct (product_names m)))"
proof (intro conjI allI impI)
  fix m ds assume "ToModel y a = (Some m, ds)"
  from ToModel_sorted[OF this]
  show "sorted (product_names m)" "distinct (product_names m)"
    "set (product_names m) = set (range_keys (Products a))"
    "length (m_Products m) = length (range_keys (Products a))"
    by simp_all
next
  fix ps' assume "set (DAList.impl_of ps') = set (DAList.impl_of (Products a))"
  then show "ToModel y (a\<lparr>Products := ps'\<rparr>) = ToModel y a"
    by (rule ToModel_order_independent)
next
  assume "rs_State (Create w r cp resp) \<noteq> rs_State resp \<or>
    \<not> HasError (rs_Diagnostics (Create w r cp resp))"
  from Create_written[OF this] ToModel_sorted
  show "\<exists>m. st_account (rs_State (Create w r cp resp)) = Some m \<and>
           sorted (product_names m) \<and> distinct (product_names m)"
    by blast
next
  assume "rs_State (Read w r rs resp) \<noteq> rs_State resp \<or>
    \<not> HasError (rs_Diagnostics (Read w r rs resp))"
  from Read_written[OF this] ToModel_sorted
  show "\<exists>m. st_account (rs_State (Read w r rs resp)) = Some m \<and>
           sorted (product_names m) \<and> distinct (product_names m)"
    by blast
next
  assume "rs_State (Update w r up resp) \<noteq> rs_State resp \<or>
    \<not> HasError (rs_Diagnostics (Update w r up resp))"
  from Update_written[OF this] ToModel_sorted
  show "\<exists>m. st_account (rs_State (Update w r up resp)) = Some m \<and>
           sorted (product_names m) \<and> distinct (product_names m)"
    by blast
next
  assume "st_account (rs_State (ImportState w r i resp)) \<noteq> st_account (rs_State resp) \<or>
    \<not> HasError (rs_Diagnostics (ImportState w r i resp))"
  from ImportState_written[OF this] ToModel_sorted
  show "\<exists>m. st_account (rs_State (ImportState w r i resp)) = Some m \<and>
           sorted (product_names m) \<and> distinct (product_names m)"
    by blast
qed

text \<open>
  The account whose map is visited as \<open>Kompass\<close>, \<open>CM\<close>, the same account visited as \<open>CM\<close>,
  \<open>Kompass\<close>, and the four callbacks against a server that returns it.
\<close>

theorem product_list_sorted_witness:
  "range_keys two_products = [''Kompass'', ''CM''] \<and>
   range_keys two_products_swapped = [''CM'', ''Kompass''] \<and>
   product_names (test_model (''{}'' @ [CHR 0x0A])) = [''CM'', ''Kompass''] \<and>
   sorted (product_names (test_model (''{}'' @ [CHR 0x0A]))) \<and>
   ToModel yaml_v3_Marshal (test_account valid_data two_products_swapped) =
     ToModel yaml_v3_Marshal (test_account valid_data two_products) \<and>
   (\<exists>m. st_account (rs_State (Create (test_world ok_answer (Inr (test_account valid_data two_products)) (\<lambda>_. []))
            \<lparr>client = test_client\<rparr> (test_plan, []) \<lparr>rs_State = null_State, rs_Diagnostics = []\<rparr>)) = Some m \<and>
        sorted (product_names m) \<and> distinct (product_names m)) \<and>
   (\<exists>m. st_account (rs_State (Read (test_world ok_answer (Inr (test_account valid_data two_products)) (\<lambda>_. []))
            \<lparr>client = test_client\<rparr> (test_plan\<lparr>arm_ID := StringValue ''acc''\<rparr>, [])
            \<lparr>rs_State = null_State, rs_Diagnostics = []\<rparr>)) = Some m \<and>
        sorted (product_names m) \<and> distinct (product_names m)) \<and>
   (\<exists>m. st_account (rs_State (Update (test_world ok_answer (Inr (test_account valid_data two_products)) (\<lambda>_. []))
            \<lparr>client = test_client\<rparr> (test_plan, []) \<lparr>rs_State = null_State, rs_Diagnostics = []\<rparr>)) = Some m \<and>
        sorted (product_names m) \<and> distinct (product_names m)) \<and>
   (\<exists>m. st_account (rs_State (ImportState (test_world ok_answer (Inr (test_account valid_data two_products)) (\<lambda>_. []))
            \<lparr>client = test_client\<rparr> ''acc'' \<lparr>rs_State = null_State, rs_Diagnostics = []\<rparr>)) = Some m \<and>
        sorted (product_names m) \<and> distinct (product_names m))"
proof -
  let ?a = "test_account valid_data two_products"
  let ?w = "test_world ok_answer (Inr ?a) (\<lambda>_. [])"
  let ?r = "\<lparr>client = test_client\<rparr>"
  let ?resp = "\<lparr>rs_State = null_State, rs_Diagnostics = []\<rparr>"
  let ?state = "(test_plan\<lparr>arm_ID := StringValue ''acc''\<rparr>, [])"
  note claim = product_list_sorted
                 [of yaml_v3_Marshal ?a ?w ?r "(test_plan, [])" ?resp ?state "(test_plan, [])" "''acc''"]
  have names: "product_names (test_model (''{}'' @ [CHR 0x0A])) = [''CM'', ''Kompass'']"
    by (simp add: product_names_def test_model_def)
  from claim ToModel_valid_two_products
  have sorted: "sorted (product_names (test_model (''{}'' @ [CHR 0x0A])))"
    by blast
  have "set (DAList.impl_of two_products_swapped) = set (DAList.impl_of (Products ?a))"
    by (simp add: test_account_fields two_products_same_entries)
  with claim have "ToModel yaml_v3_Marshal (?a\<lparr>Products := two_products_swapped\<rparr>) =
      ToModel yaml_v3_Marshal ?a"
    by blast
  then have order: "ToModel yaml_v3_Marshal (test_account valid_data two_products_swapped) =
      ToModel yaml_v3_Marshal ?a"
    by (simp add: test_account_def)
  have "rs_State (Create ?w ?r (test_plan, []) ?resp) \<noteq> rs_State ?resp"
    by (simp add: Create_test) (simp add: null_State_def)
  with claim have created: "\<exists>m. st_account (rs_State (Create ?w ?r (test_plan, []) ?resp)) = Some m \<and>
      sorted (product_names m) \<and> distinct (product_names m)"
    by blast
  have "rs_State (Read ?w ?r ?state ?resp) \<noteq> rs_State ?resp"
    by (simp add: Read_test) (simp add: null_State_def)
  with claim have read: "\<exists>m. st_account (rs_State (Read ?w ?r ?state ?resp)) = Some m \<and>
      sorted (product_names m) \<and> distinct (product_names m)"
    by blast
  have "rs_State (Update ?w ?r (test_plan, []) ?resp) \<noteq> rs_State ?resp"
    by (simp add: Update_test) (simp add: null_State_def)
  with claim have updated: "\<exists>m. st_account (rs_State (Update ?w ?r (test_plan, []) ?resp)) = Some m \<and>
      sorted (product_names m) \<and> distinct (product_names m)"
    by blast
  have "st_account (rs_State (ImportState ?w ?r ''acc'' ?resp)) \<noteq> st_account (rs_State ?resp)"
    by (simp add: ImportState_test) (simp add: null_State_def)
  with claim have imported: "\<exists>m. st_account (rs_State (ImportState ?w ?r ''acc'' ?resp)) = Some m \<and>
      sorted (product_names m) \<and> distinct (product_names m)"
    by blast
  from names sorted order created read updated imported show ?thesis
    by (simp only: range_keys_two_products range_keys_two_products_swapped simp_thms)
qed

lemma Create_failure:
  assumes "(\<exists>err. CreateAccount w (client r) (plan_payload plan) = Inl err) \<or>
           (\<exists>account. CreateAccount w (client r) (plan_payload plan) = Inr account \<and>
                      fst (ToModel (yaml_Marshal w) account) = None)"
  shows "rs_State (Create w r (plan, diags) resp) = rs_State resp \<and>
         HasError (rs_Diagnostics (Create w r (plan, diags) resp))"
  using assms
  by (auto simp: Create_def Let_def HasError_Append HasError_AddError
        split: prod.splits sum.splits option.splits dest: ToModel_None_diag)

lemma Read_failure:
  assumes "(\<exists>err. GetAccount w (client r) (ValueString (arm_ID state)) = Inl err) \<or>
           (\<exists>account. GetAccount w (client r) (ValueString (arm_ID state)) = Inr account \<and>
                      fst (ToModel (yaml_Marshal w) account) = None)"
  shows "rs_State (Read w r (state, diags) resp) = rs_State resp \<and>
         HasError (rs_Diagnostics (Read w r (state, diags) resp))"
  using assms
  by (auto simp: Read_def Let_def HasError_Append HasError_AddError
        split: prod.splits sum.splits option.splits dest: ToModel_None_diag)

lemma Update_failure:
  assumes "(\<exists>err. UpdateAccount w (client r) (plan_payload plan) = Inl err) \<or>
           (\<exists>account. UpdateAccount w (client r) (plan_payload plan) = Inr account \<and>
                      fst (ToModel (yaml_Marshal w) account) = None)"
  shows "rs_State (Update w r (plan, diags) resp) = rs_State resp \<and>
         HasError (rs_Diagnostics (Update w r (plan, diags) resp))"
  using assms
  by (auto simp: Update_def Let_def HasError_Append HasError_AddError
        split: prod.splits sum.splits option.splits dest: ToModel_None_diag)

lemma Delete_state: "rs_State (Delete w r (state, diags) resp) = rs_State resp"
  by (simp add: Delete_def Let_def split: option.splits)

lemma Delete_failure:
  assumes "DeleteAccount w (client r) (state_payload state) = Some err"
  shows "HasError (rs_Diagnostics (Delete w r (state, diags) resp))"
  using assms by (simp add: Delete_def Let_def HasError_AddError)

lemma ImportState_failure:
  assumes "(\<exists>err. GetAccount w (client r) i = Inl err) \<or>
           (\<exists>account. GetAccount w (client r) i = Inr account \<and>
                      fst (ToModel (yaml_Marshal w) account) = None)"
  shows "rs_State (ImportState w r i resp) = fst (SetAttribute_id w (rs_State resp) i) \<and>
         st_account (rs_State (ImportState w r i resp)) = st_account (rs_State resp) \<and>
         st_last_updated (rs_State (ImportState w r i resp)) = st_last_updated (rs_State resp) \<and>
         HasError (rs_Diagnostics (ImportState w r i resp))"
  using assms
  by (auto simp: ImportState_def SetAttribute_id_def Let_def HasError_Append HasError_AddError
        split: prod.splits sum.splits option.splits dest: ToModel_None_diag)

text \<open>
  C7, as the code has it. When the API operation fails, or the conversion of the account it
  returned fails, \<^verbatim>\<open>Create\<close>, \<^verbatim>\<open>Read\<close> and \<^verbatim>\<open>Update\<close> return with the state of the response as
  they found it and with an error diagnostic; \<^verbatim>\<open>Delete\<close> never writes the state and reports an
  error diagnostic when the API operation fails. \<^verbatim>\<open>ImportState\<close> writes the \<open>id\<close> attribute
  before it calls the API: on such a failure the state of the response is the prior state with
  that one write, its \<open>account\<close> and \<open>last_updated\<close> attributes are the prior ones, and an
  error diagnostic is reported.
\<close>

theorem failed_transition_state:
  "((\<exists>err. CreateAccount w (client r) (plan_payload plan) = Inl err) \<or>
    (\<exists>account. CreateAccount w (client r) (plan_payload plan) = Inr account \<and>
               fst (ToModel (yaml_Marshal w) account) = None) \<longrightarrow>
      rs_State (Create w r (plan, diags) resp) = rs_State resp \<and>
      HasError (rs_Diagnostics (Create w r (plan, diags) resp))) \<and>
   ((\<exists>err. GetAccount w (client r) (ValueString (arm_ID state)) = Inl err) \<or>
    (\<exists>account. GetAccount w (client r) (ValueString (arm_ID state)) = Inr account \<and>
               fst (ToModel (yaml_Marshal w) account) = None) \<longrightarrow>
      rs_State (Read w r (state, diags) resp) = rs_State resp \<and>
      HasError (rs_Diagnostics (Read w r (state, diags) resp))) \<and>
   ((\<exists>err. UpdateAccount w (client r) (plan_payload plan) = Inl err) \<or>
    (\<exists>account. UpdateAccount w (client r) (plan_payload plan) = Inr account \<and>
               fst (ToModel (yaml_Marshal w) account) = None) \<longrightarrow>
      rs_State (Update w r (plan, diags) resp) = rs_State resp \<and>
      HasError (rs_Diagnostics (Update w r (plan, diags) resp))) \<and>
   rs_State (Delete w r (state, diags) resp) = rs_State resp \<and>
   ((\<exists>err. DeleteAccount w (client r) (state_payload state) = Some err) \<longrightarrow>
      HasError (rs_Diagnostics (Delete w r (state, diags) resp))) \<and>
   ((\<exists>err. GetAccount w (client r) i = Inl err) \<or>
    (\<exists>account. GetAccount w (client r) i = Inr account \<and>
               fst (ToModel (yaml_Marshal w) account) = None) \<longrightarrow>
      rs_State (ImportState w r i resp) = fst (SetAttribute_id w (rs_State resp) i) \<and>
      st_account (rs_State (ImportState w r i resp)) = st_account (rs_State resp) \<and>
      st_last_updated (rs_State (ImportState w r i resp)) = st_last_updated (rs_State resp) \<and>
      HasError (rs_Diagnostics (ImportState w r i resp)))"
  using Create_failure[of w r plan diags resp] Read_failure[of w r state diags resp]
    Update_failure[of w r plan diags resp] Delete_state[of w r state diags resp]
    Delete_failure[of w r state _ diags resp] ImportState_failure[of w r i resp]
  by blast

lemma ToModel_no_roleARN:
  "fst (ToModel y (test_account [''externalID'' \<mapsto> VString ''ext''] ps)) = None"
  by (simp add: ToModel_def test_account_fields)

text \<open>
  A refused connection under each of the five callbacks, and a \<^verbatim>\<open>Read\<close> whose server returns
  an account without \<open>roleARN\<close>; the prior state holds the account with the two products.
\<close>

theorem failed_transition_state_witness:
  "rs_State (Create (test_world refused (Inr (test_account valid_data two_products)) (\<lambda>_. []))
      \<lparr>client = test_client\<rparr> (test_plan, []) \<lparr>rs_State = null_State, rs_Diagnostics = []\<rparr>) = null_State \<and>
   HasError (rs_Diagnostics (Create (test_world refused (Inr (test_account valid_data two_products)) (\<lambda>_. []))
      \<lparr>client = test_client\<rparr> (test_plan, []) \<lparr>rs_State = null_State, rs_Diagnostics = []\<rparr>)) \<and>
   rs_State (Read (test_world refused (Inr (test_account valid_data two_products)) (\<lambda>_. []))
      \<lparr>client = test_client\<rparr> (test_plan, []) \<lparr>rs_State = null_State, rs_Diagnostics = []\<rparr>) = null_State \<and>
   HasError (rs_Diagnostics (Read (test_world refused (Inr (test_account valid_data two_products)) (\<lambda>_. []))
      \<lparr>client = test_client\<rparr> (test_plan, []) \<lparr>rs_State = null_State, rs_Diagnostics = []\<rparr>)) \<and>
   rs_State (Update (test_world refused (Inr (test_account valid_data two_products)) (\<lambda>_. []))
      \<lparr>client = test_client\<rparr> (test_plan, []) \<lparr>rs_State = null_State, rs_Diagnostics = []\<rparr>) = null_State \<and>
   HasError (rs_Diagnostics (Update (test_world refused (Inr (test_account valid_data two_products)) (\<lambda>_. []))
      \<lparr>client = test_client\<rparr> (test_plan, []) \<lparr>rs_State = null_State, rs_Diagnostics = []\<rparr>)) \<and>
   rs_State (Delete (test_world refused (Inr (test_account valid_data two_products)) (\<lambda>_. []))
      \<lparr>client = test_client\<rparr> (test_plan, []) \<lparr>rs_State = null_State, rs_Diagnostics = []\<rparr>) = null_State \<and>
   HasError (rs_Diagnostics (Delete (test_world refused (Inr (test_account valid_data two_products)) (\<lambda>_. []))
      \<lparr>client = test_client\<rparr> (test_plan, []) \<lparr>rs_State = null_State, rs_Diagnostics = []\<rparr>)) \<and>
   st_account (rs_State (ImportState (test_world refused (Inr (test_account valid_data two_products)) (\<lambda>_. []))
      \<lparr>client = test_client\<rparr> ''acc'' \<lparr>rs_State = null_State, rs_Diagnostics = []\<rparr>)) = None \<and>
   HasError (rs_Diagnostics (ImportState (test_world refused (Inr (test_account valid_data two_products)) (\<lambda>_. []))
      \<lparr>client = test_client\<rparr> ''acc'' \<lparr>rs_State = null_State, rs_Diagnostics = []\<rparr>)) \<and>
   rs_State (Read (test_world ok_answer (Inr (test_account [''externalID'' \<mapsto> VString ''ext''] two_products)) (\<lambda>_. []))
      \<lparr>client = test_client\<rparr> (test_plan, []) \<lparr>rs_State = null_State, rs_Diagnostics = []\<rparr>) = null_State \<and>
   HasError (rs_Diagnostics (Read (test_world ok_answer (Inr (test_account [''externalID'' \<mapsto> VString ''ext''] two_products)) (\<lambda>_. []))
      \<lparr>client = test_client\<rparr> (test_plan, []) \<lparr>rs_State = null_State, rs_Diagnostics = []\<rparr>))"
proof -
  let ?w = "test_world refused (Inr (test_account valid_data two_products)) (\<lambda>_. [])"
  let ?v = "test_world ok_answer (Inr (test_account [''externalID'' \<mapsto> VString ''ext''] two_products)) (\<lambda>_. [])"
  let ?r = "\<lparr>client = test_client\<rparr>"
  let ?resp = "\<lparr>rs_State = null_State, rs_Diagnostics = []\<rparr>"
  note refused = failed_transition_state [of ?w ?r test_plan "[]" ?resp test_plan "''acc''"]
  note broken = failed_transition_state [of ?v ?r test_plan "[]" ?resp test_plan "''acc''"]
  have null: "st_account null_State = None"
    by (simp add: null_State_def)
  have conversion: "\<exists>account. GetAccount ?v (client ?r) (ValueString (arm_ID test_plan)) = Inr account \<and>
      fst (ToModel (yaml_Marshal ?v) account) = None"
    by (simp add: GetAccount_test_world ToModel_no_roleARN)
  from broken conversion
  have "rs_State (Read ?v ?r (test_plan, []) ?resp) = rs_State ?resp \<and>
      HasError (rs_Diagnostics (Read ?v ?r (test_plan, []) ?resp))"
    by blast
  moreover from refused
  have "rs_State (Create ?w ?r (test_plan, []) ?resp) = rs_State ?resp \<and>
      HasError (rs_Diagnostics (Create ?w ?r (test_plan, []) ?resp))"
    by (simp add: CreateAccount_test_world)
  moreover from refused
  have "rs_State (Read ?w ?r (test_plan, []) ?resp) = rs_State ?resp \<and>
      HasError (rs_Diagnostics (Read ?w ?r (test_plan, []) ?resp))"
    by (simp add: GetAccount_test_world)
  moreover from refused
  have "rs_State (Update ?w ?r (test_plan, []) ?resp) = rs_State ?resp \<and>
      HasError (rs_Diagnostics (Update ?w ?r (test_plan, []) ?resp))"
    by (simp add: UpdateAccount_test_world)
  moreover from refused
  have "rs_State (Delete ?w ?r (test_plan, []) ?resp) = rs_State ?resp \<and>
      HasError (rs_Diagnostics (Delete ?w ?r (test_plan, []) ?resp))"
    by (simp add: DeleteAccount_test_world)
  moreover have "\<exists>err. GetAccount ?w (client ?r) ''acc'' = Inl err"
    by (simp add: GetAccount_test_world)
  with refused
  have "st_account (rs_State (ImportState ?w ?r ''acc'' ?resp)) = st_account (rs_State ?resp) \<and>
      HasError (rs_Diagnostics (ImportState ?w ?r ''acc'' ?resp))"
    by blast
  ultimately show ?thesis
    by (simp add: null)
qed

text \<open>
  C7 as stated fails for \<^verbatim>\<open>ImportState\<close>: with a refused connection the state of the response
  is no longer the prior state, it holds the identifier of the request.
\<close>

theorem import_failure_counterexample:
  "GetAccount (test_world refused (Inr (test_account valid_data two_products)) (\<lambda>_. []))
      test_client ''acc'' = Inl (LibraryError ''connection refused'') \<and>
   rs_State (ImportState (test_world refused (Inr (test_account valid_data two_products)) (\<lambda>_. []))
      \<lparr>client = test_client\<rparr> ''acc'' \<lparr>rs_State = null_State, rs_Diagnostics = []\<rparr>) =
     \<lparr>st_id = StringValue ''acc'', st_account = None, st_last_updated = StringNull\<rparr> \<and>
   \<lparr>st_id = StringValue ''acc'', st_account = None, st_last_updated = StringNull\<rparr> \<noteq> null_State"
  by (simp add: ImportState_def GetAccount_test_world test_world_fields SetAttribute_id_def
        HasError_def null_State_def)

section \<open>The accounts data source\<close>

lemma account_state_failure:
  assumes "account_state a = Inl d"
  shows "\<exists>d'. ToModel y a = (None, [d']) \<and> Summary d' = Summary d \<and> Severity d' = Severity d \<and>
              Detail d = AccountID a \<and> (MissingField d \<or> TypeMismatch d)"
  using assms
  by (auto simp: account_state_def ToModel_def Let_def NewErrorDiagnostic_def MissingField_def
        TypeMismatch_def split: option.splits)

lemma account_state_success:
  assumes "account_state a = Inr m"
  shows "list_all (\<lambda>p. p_Values p = StringNull) (m_Products m) \<and>
         (case y (parseValues (AdditionalData a)) of
            Inl err \<Rightarrow>
              ToModel y a = (None, [NewErrorDiagnostic ''Erroneous values from provider''
                                      (''Got error: '' @ Error err)])
          | Inr valuesBytes \<Rightarrow>
              ToModel y a =
                (Some (m\<lparr>m_Products :=
                           map (\<lambda>p. p\<lparr>p_Values := StringValue valuesBytes\<rparr>) (m_Products m)\<rparr>), []))"
  using assms
  by (auto simp: account_state_def ToModel_def Let_def list_all_iff comp_def
        split: option.splits sum.splits)

lemma read_accounts_failure:
  assumes "\<exists>a\<in>set accounts. \<exists>d. account_state a = Inl d"
  shows "\<exists>d. read_accounts accounts acc = Inl d \<and> Severity d = SeverityError"
  using assms
proof (induction accounts arbitrary: acc)
  case Nil
  then show ?case by simp
next
  case (Cons a accounts)
  show ?case
  proof (cases "account_state a")
    case (Inl d)
    then show ?thesis
      by (auto simp: account_state_def NewErrorDiagnostic_def split: option.splits)
  next
    case (Inr m)
    with Cons.prems have "\<exists>a\<in>set accounts. \<exists>d. account_state a = Inl d"
      by auto
    from Cons.IH[OF this] Inr show ?thesis
      by simp
  qed
qed

lemma read_accounts_success:
  assumes "\<forall>a\<in>set accounts. \<exists>m. account_state a = Inr m"
  shows "read_accounts accounts acc = Inr (acc @ map (\<lambda>a. projr (account_state a)) accounts)"
  using assms
  by (induction accounts arbitrary: acc) auto

lemma ds_Read_failure:
  assumes "GetAccounts w (ds_client d) = Inr accounts"
    and "\<exists>a\<in>set accounts. \<exists>e. account_state a = Inl e"
  shows "ds_State (ds_Read w d resp) = ds_State resp \<and> HasError (ds_Diagnostics (ds_Read w d resp))"
proof -
  from read_accounts_failure[OF assms(2)]
  obtain e where "read_accounts accounts [] = Inl e" "Severity e = SeverityError"
    by blast
  with assms(1) show ?thesis
    by (auto simp: ds_Read_def HasError_Append HasError_def list_ex_iff)
qed

lemma GetAccounts_no_yaml: "GetAccounts (w\<lparr>yaml_Marshal := y'\<rparr>) c = GetAccounts w c"
proof -
  have "NewRequest (w\<lparr>yaml_Marshal := y'\<rparr>) = NewRequest w"
    by (intro ext) (simp add: NewRequest_def)
  moreover have "DoRequest (w\<lparr>yaml_Marshal := y'\<rparr>) = DoRequest w"
    by (intro ext) (simp add: DoRequest_def)
  ultimately show ?thesis
    by (simp add: GetAccounts_def split: sum.splits)
qed

lemma ds_Read_no_yaml: "ds_Read (w\<lparr>yaml_Marshal := y'\<rparr>) d resp = ds_Read w d resp"
  by (simp add: ds_Read_def GetAccounts_no_yaml split: sum.splits)

text \<open>
  C6. Where the loop of the data source refuses an account, the conversion refuses it with a
  diagnostic of the same summary and severity, one of the four diagnostics of the checks of
  \<open>roleARN\<close> and \<open>externalID\<close>; where the loop accepts an account, the conversion passes the
  four checks, and its model, when the serialization succeeds, is the entry of the data
  source with the serialized values put into the product entries, which the data source
  leaves null. One refused account among those listed fails the whole read: the state is not
  written and an error is reported. The read does not depend on the YAML encoder at all.
\<close>

theorem data_source_checks:
  "(\<forall>e. account_state a = Inl e \<longrightarrow>
      (\<exists>e'. ToModel y a = (None, [e']) \<and> Summary e' = Summary e \<and> Severity e' = Severity e \<and>
            Detail e = AccountID a \<and> (MissingField e \<or> TypeMismatch e))) \<and>
   (\<forall>m. account_state a = Inr m \<longrightarrow>
      list_all (\<lambda>p. p_Values p = StringNull) (m_Products m) \<and>
      (case y (parseValues (AdditionalData a)) of
         Inl err \<Rightarrow>
           ToModel y a = (None, [NewErrorDiagnostic ''Erroneous values from provider''
                                   (''Got error: '' @ Error err)])
       | Inr valuesBytes \<Rightarrow>
           ToModel y a =
             (Some (m\<lparr>m_Products :=
                        map (\<lambda>p. p\<lparr>p_Values := StringValue valuesBytes\<rparr>) (m_Products m)\<rparr>), []))) \<and>
   (\<forall>accounts. GetAccounts w (ds_client d) = Inr accounts \<and>
        (\<exists>a\<in>set accounts. \<exists>e. account_state a = Inl e) \<longrightarrow>
      ds_State (ds_Read w d resp) = ds_State resp \<and>
      HasError (ds_Diagnostics (ds_Read w d resp))) \<and>
   (\<forall>accounts. GetAccounts w (ds_client d) = Inr accounts \<and>
        (\<forall>a\<in>set accounts. \<exists>m. account_state a = Inr m) \<and>
        \<not> HasError (ds_State_Set_diags w (map (\<lambda>a. projr (account_state a)) accounts)) \<longrightarrow>
      ds_State (ds_Read w d resp) = Some (map (\<lambda>a. projr (account_state a)) accounts)) \<and>
   (\<forall>y'. ds_Read (w\<lparr>yaml_Marshal := y'\<rparr>) d resp = ds_Read w d resp)"
proof (intro conjI allI impI)
  fix e assume "account_state a = Inl e"
  then show "\<exists>e'. ToModel y a = (None, [e']) \<and> Summary e' = Summary e \<and> Severity e' = Severity e \<and>
      Detail e = AccountID a \<and> (MissingField e \<or> TypeMismatch e)"
    by (rule account_state_failure)
next
  fix m assume m: "account_state a = Inr m"
  from account_state_success[OF m, of y]
  show "list_all (\<lambda>p. p_Values p = StringNull) (m_Products m)"
    and "case y (parseValues (AdditionalData a)) of
         Inl err \<Rightarrow>
           ToModel y a = (None, [NewErrorDiagnostic ''Erroneous values from provider''
                                   (''Got error: '' @ Error err)])
       | Inr valuesBytes \<Rightarrow>
           ToModel y a =
             (Some (m\<lparr>m_Products :=
                        map (\<lambda>p. p\<lparr>p_Values := StringValue valuesBytes\<rparr>) (m_Products m)\<rparr>), [])"
    by simp_all
next
  fix accounts
  assume "GetAccounts w (ds_client d) = Inr accounts \<and>
      (\<exists>a\<in>set accounts. \<exists>e. account_state a = Inl e)"
  then show "ds_State (ds_Read w d resp) = ds_State resp"
    and "HasError (ds_Diagnostics (ds_Read w d resp))"
    using ds_Read_failure[of w d accounts resp] by simp_all
next
  fix accounts
  assume "GetAccounts w (ds_client d) = Inr accounts \<and>
      (\<forall>a\<in>set accounts. \<exists>m. account_state a = Inr m) \<and>
      \<not> HasError (ds_State_Set_diags w (map (\<lambda>a. projr (account_state a)) accounts))"
  then show "ds_State (ds_Read w d resp) = Some (map (\<lambda>a. projr (account_state a)) accounts)"
    by (simp add: ds_Read_def read_accounts_success Let_def)
next
  fix y' show "ds_Read (w\<lparr>yaml_Marshal := y'\<rparr>) d resp = ds_Read w d resp"
    by (rule ds_Read_no_yaml)
qed

lemma account_state_no_roleARN:
  "account_state (test_account [''externalID'' \<mapsto> VString ''ext''] ps) =
     Inl (NewErrorDiagnostic ''Missing role ARN for account'' ''acc'')"
  by (simp add: account_state_def test_account_fields)

lemma account_state_valid_two_products:
  "account_state (test_account valid_data two_products) =
     Inr ((test_model [])\<lparr>m_Products :=
            [\<lparr>p_Name = StringValue ''CM'', p_Active = BoolValue False, p_Values = StringNull\<rparr>,
             \<lparr>p_Name = StringValue ''Kompass'', p_Active = BoolValue True, p_Values = StringNull\<rparr>]\<rparr>)"
  by (simp add: account_state_def test_account_fields valid_data_fields range_keys_two_products
        map_index_two_products test_model_def)

text \<open>
  The account without \<open>roleARN\<close> and the account with the two products, each under the loop
  and under the conversion, and a listing that holds the account without \<open>roleARN\<close>.
\<close>

theorem data_source_checks_witness:
  "account_state (test_account [''externalID'' \<mapsto> VString ''ext''] DAList.empty) =
     Inl (NewErrorDiagnostic ''Missing role ARN for account'' ''acc'') \<and>
   (\<exists>e'. ToModel yaml_v3_Marshal (test_account [''externalID'' \<mapsto> VString ''ext''] DAList.empty) = (None, [e']) \<and>
         Summary e' = ''Missing role ARN for account'') \<and>
   map p_Values (m_Products (projr (account_state (test_account valid_data two_products)))) =
     [StringNull, StringNull] \<and>
   map p_Values (m_Products (the (fst (ToModel yaml_v3_Marshal (test_account valid_data two_products))))) =
     [StringValue (''{}'' @ [CHR 0x0A]), StringValue (''{}'' @ [CHR 0x0A])] \<and>
   ds_State (ds_Read (test_world ok_answer (Inr (test_account [''externalID'' \<mapsto> VString ''ext''] DAList.empty)) (\<lambda>_. []))
      \<lparr>ds_client = test_client\<rparr> \<lparr>ds_State = None, ds_Diagnostics = []\<rparr>) = None \<and>
   HasError (ds_Diagnostics (ds_Read (test_world ok_answer (Inr (test_account [''externalID'' \<mapsto> VString ''ext''] DAList.empty)) (\<lambda>_. []))
      \<lparr>ds_client = test_client\<rparr> \<lparr>ds_State = None, ds_Diagnostics = []\<rparr>)) \<and>
   ds_State (ds_Read (test_world ok_answer (Inr (test_account valid_data two_products)) (\<lambda>_. []))
      \<lparr>ds_client = test_client\<rparr> \<lparr>ds_State = None, ds_Diagnostics = []\<rparr>) =
     Some [projr (account_state (test_account valid_data two_products))]"
proof -
  let ?bad = "test_account [''externalID'' \<mapsto> VString ''ext''] DAList.empty"
  let ?good = "test_account valid_data two_products"
  let ?d = "\<lparr>ds_client = test_client\<rparr>"
  let ?resp = "\<lparr>ds_State = None, ds_Diagnostics = []\<rparr>"
  note bad = data_source_checks
               [of ?bad yaml_v3_Marshal "test_world ok_answer (Inr ?bad) (\<lambda>_. [])" ?d ?resp]
  note good = data_source_checks
                [of ?good yaml_v3_Marshal "test_world ok_answer (Inr ?good) (\<lambda>_. [])" ?d ?resp]
  from bad account_state_no_roleARN[of DAList.empty]
  have 1: "\<exists>e'. ToModel yaml_v3_Marshal ?bad = (None, [e']) \<and>
      Summary e' = ''Missing role ARN for account''"
    by (auto simp: NewErrorDiagnostic_def)
  have "GetAccounts (test_world ok_answer (Inr ?bad) (\<lambda>_. [])) (ds_client ?d) = Inr [?bad] \<and>
      (\<exists>a\<in>set [?bad]. \<exists>e. account_state a = Inl e)"
    by (simp add: GetAccounts_test_world account_state_no_roleARN)
  with bad have 2: "ds_State (ds_Read (test_world ok_answer (Inr ?bad) (\<lambda>_. [])) ?d ?resp) = ds_State ?resp \<and>
      HasError (ds_Diagnostics (ds_Read (test_world ok_answer (Inr ?bad) (\<lambda>_. [])) ?d ?resp))"
    by blast
  from good account_state_valid_two_products
  have "list_all (\<lambda>p. p_Values p = StringNull)
      (m_Products (projr (account_state ?good)))"
    by simp
  then have 3: "map p_Values (m_Products (projr (account_state ?good))) = [StringNull, StringNull]"
    by (simp add: account_state_valid_two_products)
  have 4: "map p_Values (m_Products (the (fst (ToModel yaml_v3_Marshal ?good)))) =
      [StringValue (''{}'' @ [CHR 0x0A]), StringValue (''{}'' @ [CHR 0x0A])]"
    by (simp add: ToModel_valid_two_products test_model_def)
  have "GetAccounts (test_world ok_answer (Inr ?good) (\<lambda>_. [])) (ds_client ?d) = Inr [?good] \<and>
      (\<forall>a\<in>set [?good]. \<exists>m. account_state a = Inr m) \<and>
      \<not> HasError (ds_State_Set_diags (test_world ok_answer (Inr ?good) (\<lambda>_. []))
           (map (\<lambda>a. projr (account_state a)) [?good]))"
    by (simp add: GetAccounts_test_world account_state_valid_two_products test_world_fields
          HasError_def)
  with good have 5: "ds_State (ds_Read (test_world ok_answer (Inr ?good) (\<lambda>_. [])) ?d ?resp) =
      Some (map (\<lambda>a. projr (account_state a)) [?good])"
    by blast
  from 1 2 3 4 5 show ?thesis
    by (simp add: account_state_no_roleARN)
qed

section \<open>The configuration of the provider\<close>

lemma HasError_Append_Nil: "HasError (Append [] diags) \<longleftrightarrow> HasError diags"
  by (simp add: HasError_Append) (simp add: HasError_def)

lemma NewClient_configured:
  "NewClient (Some (if resolved_host w config = [] then models_DefaultHostURL
                    else resolved_host w config))
     (resolved_token w config) = Inr (configured_client w config)"
  by (simp add: NewClient_def configured_client_def)

lemma Configure_decode_error:
  assumes "HasError diags"
  shows "Configure w (config, diags) empty_ConfigureResponse =
           empty_ConfigureResponse\<lparr>cr_Diagnostics := Append [] diags\<rparr>"
  using assms
  by (simp add: Configure_def empty_ConfigureResponse_def HasError_Append_Nil)

lemma Configure_unknown:
  assumes "\<not> HasError diags" "IsUnknown (Host config) \<or> IsUnknown (cfg_Token config)"
  shows "HasError (cr_Diagnostics (Configure w (config, diags) empty_ConfigureResponse)) \<and>
         ResourceData (Configure w (config, diags) empty_ConfigureResponse) = None \<and>
         DataSourceData (Configure w (config, diags) empty_ConfigureResponse) = None"
proof (cases "IsUnknown (Host config)")
  case True
  with assms(1) show ?thesis
    by (cases "IsUnknown (cfg_Token config)")
       (simp_all add: Configure_def empty_ConfigureResponse_def HasError_Append_Nil
          HasError_AddAttributeError)
next
  case False
  with assms show ?thesis
    by (simp add: Configure_def empty_ConfigureResponse_def HasError_Append_Nil
          HasError_AddAttributeError)
qed

lemma Configure_known:
  assumes "\<not> HasError diags" "\<not> IsUnknown (Host config)" "\<not> IsUnknown (cfg_Token config)"
  shows "Configure w (config, diags) empty_ConfigureResponse =
     (if resolved_token w config = []
      then \<lparr>cr_Diagnostics = AddAttributeError (Append [] diags) ''token''
                ''Missing Zesty API Token''
                ''The provider cannot create the Zesty API client as there is a missing or empty value for the Zesty API token.'',
            DataSourceData = None, ResourceData = None\<rparr>
      else (case Validate w (configured_client w config) of
              Some err \<Rightarrow>
                \<lparr>cr_Diagnostics = AddError (Append [] diags)
                       ''Unable to Validate Zesty API Client''
                       (''An unexpected error occurred when validating the Zesty API. Error: '' @ Error err),
                 DataSourceData = None, ResourceData = None\<rparr>
            | None \<Rightarrow> \<lparr>cr_Diagnostics = Append [] diags,
                        DataSourceData = Some (configured_client w config),
                        ResourceData = Some (configured_client w config)\<rparr>))"
  using assms
  by (cases "Host config"; cases "cfg_Token config")
     (simp_all add: Configure_def Let_def empty_ConfigureResponse_def HasError_Append_Nil
        HasError_AddAttributeError resolved_token_def resolved_host_def NewClient_def
        configured_client_def split: option.splits)

lemma Configure_empty_token:
  assumes "resolved_token w config = []"
  shows "HasError (cr_Diagnostics (Configure w (config, diags) empty_ConfigureResponse)) \<and>
         ResourceData (Configure w (config, diags) empty_ConfigureResponse) = None \<and>
         DataSourceData (Configure w (config, diags) empty_ConfigureResponse) = None"
proof (cases "HasError diags")
  case True
  then show ?thesis
    by (simp add: Configure_decode_error HasError_Append_Nil)
       (simp add: empty_ConfigureResponse_def)
next
  case False
  show ?thesis
  proof (cases "IsUnknown (Host config) \<or> IsUnknown (cfg_Token config)")
    case True
    with False show ?thesis
      by (rule Configure_unknown)
  next
    case known: False
    with False assms show ?thesis
      by (simp add: Configure_known HasError_AddAttributeError)
  qed
qed

lemma Configure_known_error:
  assumes "\<not> HasError diags" "\<not> IsUnknown (Host config)" "\<not> IsUnknown (cfg_Token config)"
  shows "HasError (cr_Diagnostics (Configure w (config, diags) empty_ConfigureResponse)) \<longleftrightarrow>
         resolved_token w config = [] \<or> Validate w (configured_client w config) \<noteq> None"
  using assms
  by (auto simp: Configure_known HasError_AddAttributeError HasError_AddError
        HasError_Append_Nil split: option.splits)

lemma Configure_known_client:
  assumes "\<not> HasError diags" "\<not> IsUnknown (Host config)" "\<not> IsUnknown (cfg_Token config)"
    and "resolved_token w config \<noteq> []" "Validate w (configured_client w config) = None"
  shows "ResourceData (Configure w (config, diags) empty_ConfigureResponse) =
           Some (configured_client w config) \<and>
         DataSourceData (Configure w (config, diags) empty_ConfigureResponse) =
           Some (configured_client w config)"
  using assms by (simp add: Configure_known)

text \<open>
  C8, as the code has it. Host and token are each the setting of the configuration when that
  is not null and the environment variable otherwise. An empty token fails the configuration,
  with no client handed on. An empty host does not: the client gets the default host of
  package models. Once the configuration has been decoded without error and both settings are
  known, the configuration fails exactly when the token is empty or the validation request of
  the client fails; otherwise the client with the resolved host and token is handed on.
\<close>

theorem Configure_resolution:
  "(\<not> IsNull (Host config) \<longrightarrow> resolved_host w config = ValueString (Host config)) \<and>
   (IsNull (Host config) \<longrightarrow> resolved_host w config = os_Getenv w ''ZESTY_HOST'') \<and>
   (\<not> IsNull (cfg_Token config) \<longrightarrow> resolved_token w config = ValueString (cfg_Token config)) \<and>
   (IsNull (cfg_Token config) \<longrightarrow> resolved_token w config = os_Getenv w ''ZESTY_API_TOKEN'') \<and>
   (resolved_token w config = [] \<longrightarrow>
      HasError (cr_Diagnostics (Configure w (config, diags) empty_ConfigureResponse)) \<and>
      ResourceData (Configure w (config, diags) empty_ConfigureResponse) = None \<and>
      DataSourceData (Configure w (config, diags) empty_ConfigureResponse) = None) \<and>
   (\<not> HasError diags \<and> \<not> IsUnknown (Host config) \<and> \<not> IsUnknown (cfg_Token config) \<longrightarrow>
      (HasError (cr_Diagnostics (Configure w (config, diags) empty_ConfigureResponse)) \<longleftrightarrow>
         resolved_token w config = [] \<or> Validate w (configured_client w config) \<noteq> None) \<and>
      (resolved_token w config \<noteq> [] \<and> Validate w (configured_client w config) = None \<longrightarrow>
         ResourceData (Configure w (config, diags) empty_ConfigureResponse) =
           Some (configured_client w config) \<and>
         DataSourceData (Configure w (config, diags) empty_ConfigureResponse) =
           Some (configured_client w config) \<and>
         Token (configured_client w config) = resolved_token w config \<and>
         HostURL (configured_client w config) =
           (if resolved_host w config = [] then models_DefaultHostURL
            else resolved_host w config)))"
proof (intro conjI impI)
  assume "resolved_token w config = []"
  from Configure_empty_token[OF this, of diags]
  show "HasError (cr_Diagnostics (Configure w (config, diags) empty_ConfigureResponse))"
    and "ResourceData (Configure w (config, diags) empty_ConfigureResponse) = None"
    and "DataSourceData (Configure w (config, diags) empty_ConfigureResponse) = None"
    by simp_all
next
  assume "\<not> HasError diags \<and> \<not> IsUnknown (Host config) \<and> \<not> IsUnknown (cfg_Token config)"
  then show "HasError (cr_Diagnostics (Configure w (config, diags) empty_ConfigureResponse)) \<longleftrightarrow>
      resolved_token w config = [] \<or> Validate w (configured_client w config) \<noteq> None"
    by (simp add: Configure_known_error)
next
  assume known: "\<not> HasError diags \<and> \<not> IsUnknown (Host config) \<and> \<not> IsUnknown (cfg_Token config)"
    and ok: "resolved_token w config \<noteq> [] \<and> Validate w (configured_client w config) = None"
  from known ok Configure_known_client[of diags config w]
  show "ResourceData (Configure w (config, diags) empty_ConfigureResponse) =
      Some (configured_client w config)"
    and "DataSourceData (Configure w (config, diags) empty_ConfigureResponse) =
      Some (configured_client w config)"
    by simp_all
  show "Token (configured_client w config) = resolved_token w config"
    and "HostURL (configured_client w config) =
      (if resolved_host w config = [] then models_DefaultHostURL else resolved_host w config)"
    by (simp_all add: configured_client_def)
qed (simp_all add: resolved_host_def resolved_token_def)

text \<open>
  Settings that override the environment, an environment that supplies the token while the
  host falls back to the default, and a configuration without any token.
\<close>

theorem Configure_resolution_witness:
  "ResourceData (Configure
      (test_world ok_answer (Inl (LibraryError ''EOF''))
         (\<lambda>k. if k = ''ZESTY_HOST'' then ''http://env:1'' else if k = ''ZESTY_API_TOKEN'' then ''envtoken'' else []))
      (\<lparr>Host = StringValue ''http://127.0.0.1:8080'', cfg_Token = StringValue ''testtoken''\<rparr>, [])
      empty_ConfigureResponse) = Some test_client \<and>
   ResourceData (Configure
      (test_world ok_answer (Inl (LibraryError ''EOF''))
         (\<lambda>k. if k = ''ZESTY_API_TOKEN'' then ''envtoken'' else []))
      (\<lparr>Host = StringNull, cfg_Token = StringNull\<rparr>, [])
      empty_ConfigureResponse) =
     Some \<lparr>HostURL = ''https://api.cloudvisor.io/kompass-platform'',
           HTTPClient = \<lparr>Timeout = 60 * Second\<rparr>, Token = ''envtoken''\<rparr> \<and>
   HasError (cr_Diagnostics (Configure
      (test_world ok_answer (Inl (LibraryError ''EOF'')) (\<lambda>_. []))
      (\<lparr>Host = StringNull, cfg_Token = StringNull\<rparr>, [])
      empty_ConfigureResponse)) \<and>
   ResourceData (Configure
      (test_world ok_answer (Inl (LibraryError ''EOF'')) (\<lambda>_. []))
      (\<lparr>Host = StringNull, cfg_Token = StringNull\<rparr>, [])
      empty_ConfigureResponse) = None"
proof -
  let ?env = "\<lambda>k. if k = ''ZESTY_HOST'' then ''http://env:1''
                  else if k = ''ZESTY_API_TOKEN'' then ''envtoken'' else []"
  let ?tok = "\<lambda>k. if k = ''ZESTY_API_TOKEN'' then ''envtoken'' else []"
  let ?set = "\<lparr>Host = StringValue ''http://127.0.0.1:8080'', cfg_Token = StringValue ''testtoken''\<rparr>"
  let ?unset = "\<lparr>Host = StringNull, cfg_Token = StringNull\<rparr>"
  let ?w1 = "test_world ok_answer (Inl (LibraryError ''EOF'')) ?env"
  let ?w2 = "test_world ok_answer (Inl (LibraryError ''EOF'')) ?tok"
  let ?w3 = "test_world ok_answer (Inl (LibraryError ''EOF'')) (\<lambda>_. [])"
  have noerr: "\<not> HasError []"
    by (simp add: HasError_def)
  have c1: "configured_client ?w1 ?set = test_client"
    by (simp add: configured_client_def resolved_host_def resolved_token_def test_client_def)
  have t1: "resolved_token ?w1 ?set \<noteq> []"
    by (simp add: resolved_token_def)
  from Configure_resolution[of ?set ?w1 "[]"] noerr t1
  have 1: "ResourceData (Configure ?w1 (?set, []) empty_ConfigureResponse) = Some test_client"
    by (simp add: Validate_test_world c1)
  have c2: "configured_client ?w2 ?unset =
      \<lparr>HostURL = ''https://api.cloudvisor.io/kompass-platform'',
       HTTPClient = \<lparr>Timeout = 60 * Second\<rparr>, Token = ''envtoken''\<rparr>"
    by (simp add: configured_client_def resolved_host_def resolved_token_def test_world_fields
          models_DefaultHostURL_def)
  have t2: "resolved_token ?w2 ?unset \<noteq> []"
    by (simp add: resolved_token_def test_world_fields)
  from Configure_resolution[of ?unset ?w2 "[]"] noerr t2
  have 2: "ResourceData (Configure ?w2 (?unset, []) empty_ConfigureResponse) =
      Some \<lparr>HostURL = ''https://api.cloudvisor.io/kompass-platform'',
            HTTPClient = \<lparr>Timeout = 60 * Second\<rparr>, Token = ''envtoken''\<rparr>"
    by (simp add: Validate_test_world c2)
  have t3: "resolved_token ?w3 ?unset = []"
    by (simp add: resolved_token_def test_world_fields)
  from Configure_resolution[of ?unset ?w3 "[]"] t3
  have 3: "HasError (cr_Diagnostics (Configure ?w3 (?unset, []) empty_ConfigureResponse)) \<and>
      ResourceData (Configure ?w3 (?unset, []) empty_ConfigureResponse) = None"
    by blast
  from 1 2 3 show ?thesis
    by simp
qed

text \<open>
  C8 as stated fails in the direction from failure to an empty token: with the token
  \<open>tok\<close> and a server that refuses the connection, the configuration fails on the
  validation request.
\<close>

theorem Configure_failure_counterexample:
  "resolved_token (test_world refused (Inl (LibraryError ''EOF'')) (\<lambda>_. []))
      \<lparr>Host = StringNull, cfg_Token = StringValue ''tok''\<rparr> = ''tok'' \<and>
   HasError (cr_Diagnostics (Configure (test_world refused (Inl (LibraryError ''EOF'')) (\<lambda>_. []))
      (\<lparr>Host = StringNull, cfg_Token = StringValue ''tok''\<rparr>, []) empty_ConfigureResponse))"
proof -
  have "\<not> HasError []"
    by (simp add: HasError_def)
  then show ?thesis
    by (simp add: Configure_known Validate_test_world HasError_AddError resolved_token_def)
qed

end
